theory Spec2Isabelle
  imports Main
begin

section \<open>Values shared by the handlers\<close>

text \<open>
  Python strings are modelled as \<^typ>\<open>string\<close>, one \<^typ>\<open>char\<close> per character. Timestamps
  are integers on one fixed clock; the current time is an argument of every function that
  reads it.
\<close>

type_synonym timestamp = int

text \<open>
  Exceptions are values. Every \<^verbatim>\<open>raise\<close> and every failing library call of the
  modelled source is one of these.
\<close>

datatype exn =
  DoesNotExist
  | KeyError
  | AttributeError
  | ValueError
  | TypeError
  | OverflowError
  | HTTPError
  | TransportError
  | DatabaseError

text \<open>What a Flask view returns: a rendered template with its context, a redirect, or a bare status.\<close>

datatype response =
  RenderTemplate string "(string \<times> string option) list"
  | Redirect string
  | StartOAuth "string option"
  | Status nat

subsection \<open>Lower-casing\<close>

text \<open>
  \<^verbatim>\<open>str.lower()\<close> and SQL \<^verbatim>\<open>lower()\<close> on ASCII text: the letters A to Z (codes 65 to 90)
  move up by 32, every other character stays. The two functions differ outside ASCII, so
  the theorems about them are stated for ASCII text.
\<close>

definition lower_char :: "char \<Rightarrow> char" where
  "lower_char c = (let n = (of_char c :: nat) in if 65 \<le> n \<and> n \<le> 90 then char_of (n + 32) else c)"

definition lower :: "string \<Rightarrow> string" where
  "lower s = map lower_char s"

definition is_ascii :: "string \<Rightarrow> bool" where
  "is_ascii s = list_all (\<lambda>c. (of_char c :: nat) < 128) s"

text \<open>
  Two characters are the same up to ASCII letter case when they are equal, or one is an
  upper-case ASCII letter and the other is the lower-case letter 32 codes above it.
\<close>

definition same_char_modulo_case :: "char \<Rightarrow> char \<Rightarrow> bool" where
  "same_char_modulo_case a b =
     (let m = (of_char a :: nat); n = (of_char b :: nat) in
      a = b \<or> (65 \<le> m \<and> m \<le> 90 \<and> n = m + 32) \<or> (65 \<le> n \<and> n \<le> 90 \<and> m = n + 32))"

definition differs_only_in_case :: "string \<Rightarrow> string \<Rightarrow> bool" where
  "differs_only_in_case s t = list_all2 same_char_modulo_case s t"

section \<open>The legacy handlers of \<^verbatim>\<open>app/web.py\<close>\<close>

text \<open>
  \<^verbatim>\<open>app/web.py\<close> works on the peewee tables \<^verbatim>\<open>Invitations\<close> and \<^verbatim>\<open>Settings\<close>. A row of
  \<^verbatim>\<open>Invitations\<close> carries the columns the handler reads; a column that may be NULL is an
  option, and a comparison with NULL selects no row, as in SQL.
\<close>

record invitations_row =
  row_code :: string
  row_used :: bool
  row_unlimited :: "bool option"
  row_expires :: "timestamp option"

type_synonym settings_table = "(string \<times> string) list"

text \<open>\<^verbatim>\<open>Settings.get(Settings.key == k).value\<close>: raises \<^verbatim>\<open>DoesNotExist\<close> when no row has the key.\<close>

definition settings_get :: "settings_table \<Rightarrow> string \<Rightarrow> exn + string" where
  "settings_get tbl k = (case map_of tbl k of None \<Rightarrow> Inl DoesNotExist | Some v \<Rightarrow> Inr v)"

text \<open>The three \<^verbatim>\<open>.where(...).exists()\<close> queries of \<^verbatim>\<open>connect\<close>, in the order the source runs them.\<close>

definition code_exists :: "invitations_row list \<Rightarrow> string option \<Rightarrow> bool" where
  "code_exists tbl code = list_ex (\<lambda>r. Some (row_code r) = code) tbl"

definition code_used_up :: "invitations_row list \<Rightarrow> string option \<Rightarrow> bool" where
  "code_used_up tbl code =
     list_ex (\<lambda>r. Some (row_code r) = code \<and> row_used r \<and> row_unlimited r = Some False) tbl"

definition code_expired :: "invitations_row list \<Rightarrow> timestamp \<Rightarrow> string option \<Rightarrow> bool" where
  "code_expired tbl now code =
     list_ex (\<lambda>r. Some (row_code r) = code \<and>
                   (case row_expires r of None \<Rightarrow> False | Some t \<Rightarrow> t \<le> now)) tbl"

definition login_error :: "settings_table \<Rightarrow> string option \<Rightarrow> string \<Rightarrow> exn + response" where
  "login_error tbl code msg =
     (case settings_get tbl ''plex_name'' of
        Inl e \<Rightarrow> Inl e
      | Inr n \<Rightarrow> Inr (RenderTemplate ''user-plex-login.html''
                        [(''name'', Some n), (''code'', code), (''code_error'', Some msg)]))"

definition NOT_FOUND :: string where
  "NOT_FOUND = ''That invite code does not exist.''"

definition ALREADY_USED :: string where
  "ALREADY_USED = ''That invite code has already been used.''"

definition EXPIRED :: string where
  "EXPIRED = ''That invite code has expired.''"

text \<open>
  \<^verbatim>\<open>connect\<close> (POST /join of \<^verbatim>\<open>app/web.py\<close>). The code that passes the three checks is handed to
  the Plex OAuth flow, which runs in a thread the model does not follow: \<^const>\<open>StartOAuth\<close>
  stands for it.
\<close>

definition connect :: "invitations_row list \<Rightarrow> settings_table \<Rightarrow> timestamp \<Rightarrow> string option \<Rightarrow> exn + response" where
  "connect tbl settings now code =
     (if \<not> code_exists tbl code then login_error settings code NOT_FOUND
      else if code_used_up tbl code then login_error settings code ALREADY_USED
      else if code_expired tbl now code then login_error settings code EXPIRED
      else Inr (StartOAuth code))"

text \<open>The reason a response of \<^const>\<open>connect\<close> carries: the \<^verbatim>\<open>code_error\<close> of the rendered page.\<close>

definition reason_of :: "exn + response \<Rightarrow> string option" where
  "reason_of r =
     (case r of
        Inr (RenderTemplate t ctx) \<Rightarrow> (case map_of ctx ''code_error'' of Some m \<Rightarrow> m | None \<Rightarrow> None)
      | _ \<Rightarrow> None)"

definition accepted :: "exn + response \<Rightarrow> bool" where
  "accepted r = (case r of Inr (StartOAuth c) \<Rightarrow> True | _ \<Rightarrow> False)"

section \<open>The data model of \<^verbatim>\<open>app/models.py\<close>\<close>

text \<open>
  JSON values as Python sees them after \<^verbatim>\<open>r.json()\<close>; \<^verbatim>\<open>None\<close> is \<open>JNull\<close>. An object is an
  association list with one entry per key.
\<close>

datatype json =
  JNull
  | JBool bool
  | JNum int
  | JStr string
  | JArr "json list"
  | JObj "(string \<times> json) list"

text \<open>
  The rows of the SQLAlchemy models, with the columns the modelled code reads or writes.
  Primary and foreign keys are integers; a nullable column is an option. The \<^verbatim>\<open>token\<close>
  column holds the vendor-issued id as the vendor sent it, so it is a JSON value; the
  NOT NULL constraints are enforced by the database at commit time (see \<open>db_commit\<close>).
\<close>

record user =
  u_id :: int
  u_token :: json
  u_username :: string
  u_email :: "string option"
  u_code :: string
  u_expires :: "timestamp option"
  u_password :: "string option"
  u_server_id :: "int option"

record media_server =
  ms_id :: int
  ms_name :: string
  ms_server_type :: string
  ms_url :: string
  ms_api_key :: "string option"

record library =
  lib_id :: int
  lib_external_id :: string
  lib_name :: string
  lib_enabled :: bool
  lib_server_id :: "int option"

text \<open>
  \<^verbatim>\<open>Invitation.server\<close> is the foreign key \<open>inv_server_id\<close>. The relationships
  \<^verbatim>\<open>Invitation.servers\<close> and \<^verbatim>\<open>Invitation.libraries\<close> are the rows of their association tables,
  kept with the invitation as lists of ids, in attachment order.
\<close>

record invitation =
  inv_id :: int
  inv_code :: string
  inv_used :: bool
  inv_used_by_id :: "int option"
  inv_expires :: "timestamp option"
  inv_unlimited :: "bool option"
  inv_duration :: "string option"
  inv_server_id :: "int option"
  inv_servers :: "int list"
  inv_libraries :: "int list"

text \<open>
  The database. \<open>ledger\<close> holds the (invitation, server) pairs that \<^verbatim>\<open>mark_server_used\<close>
  has marked.
\<close>

record db =
  users :: "user list"
  invitations :: "invitation list"
  media_servers :: "media_server list"
  libraries :: "library list"
  app_settings :: "(string \<times> string option) list"
  ledger :: "(int \<times> int option) list"

subsection \<open>Requests to the vendors\<close>

datatype http_request =
  GetReq string "(string \<times> json) list"
  | PostParams string "(string \<times> json) list"
  | PostJson string json
  | PutReq string

text \<open>A response: its status code and its body as \<^verbatim>\<open>r.json()\<close> parses it (\<open>None\<close>: not JSON).\<close>

record http_response =
  status_code :: nat
  body :: "json option"

text \<open>
  What \<^verbatim>\<open>self.get\<close>, \<^verbatim>\<open>self.post\<close> and \<^verbatim>\<open>self.put\<close> can do: return a response, raise
  \<^verbatim>\<open>requests.HTTPError\<close> carrying a response (or none), or raise anything else.
\<close>

datatype http_result =
  Returned http_response
  | RaisedHTTPError "http_response option"
  | RaisedOther exn

text \<open>
  A call of \<^verbatim>\<open>create_user\<close> on a client that \<^verbatim>\<open>get_client_for_media_server\<close> returned: the
  server the client was built for and the arguments. The e-mail is a keyword argument that
  some calls do not pass.
\<close>

datatype email_arg = NoEmail | Email "string option"

record vendor_call =
  vc_server :: media_server
  vc_username :: string
  vc_password :: string
  vc_email :: email_arg

subsection \<open>The state of a request and its environment\<close>

text \<open>
  \<open>committed\<close> is the database; \<open>session\<close> is what the SQLAlchemy session shows: the database
  with the changes not yet committed. The logs record what left the process.
\<close>

record world =
  committed :: db
  session :: db
  http_log :: "http_request list"
  vendor_calls :: "vendor_call list"
  error_log :: "string list"
  notifications :: "(string \<times> string) list"
  flask_session :: "(string \<times> string option) list"

text \<open>
  Everything outside the modelled code is a parameter: the vendors' answers (which may
  depend on the requests made so far), whether a commit fails, the library functions
  \<^verbatim>\<open>int\<close> and \<^verbatim>\<open>str\<close>, the integer the database reads a text as when it compares the text
  with an integer column (\<open>sql_int\<close>), the clock and the random password.

  Modelled from the spec: \<^verbatim>\<open>app.services.invites.is_invite_valid\<close> is not under src/; section
  4.1 makes it a function of the code with no side effects, returning \<open>(ok, reason)\<close>.
  Modelled from the spec: \<^verbatim>\<open>handle_oauth_token\<close> is not under src/; it provisions the Plex
  account, so it is a function on the state.
\<close>

record env =
  http :: "http_request list \<Rightarrow> http_request \<Rightarrow> http_result"
  client_create_user :: "vendor_call list \<Rightarrow> vendor_call \<Rightarrow> exn + json"
  commit_raises :: "db \<Rightarrow> bool"
  is_invite_valid :: "db \<Rightarrow> string \<Rightarrow> bool \<times> string"
  handle_oauth_token :: "string option \<Rightarrow> string \<Rightarrow> world \<Rightarrow> world"
  py_int :: "string \<Rightarrow> int option"
  sql_int :: "string \<Rightarrow> int option"
  py_str :: "json \<Rightarrow> string"
  utcnow :: timestamp
  plus_days :: "timestamp \<Rightarrow> int \<Rightarrow> timestamp option"
  generated_password :: string

text \<open>
  \<^verbatim>\<open>db.session.commit()\<close> writes the session's state to the database or raises (an
  \<^verbatim>\<open>IntegrityError\<close> for a NULL in a NOT NULL column is one of the faults \<open>commit_raises\<close>
  stands for). \<^verbatim>\<open>db.session.rollback()\<close> drops the uncommitted changes.
\<close>

definition db_commit :: "env \<Rightarrow> world \<Rightarrow> (exn + unit) \<times> world" where
  "db_commit e w =
     (if commit_raises e (session w) then (Inl DatabaseError, w)
      else (Inr (), w\<lparr>committed := session w\<rparr>))"

definition db_rollback :: "world \<Rightarrow> world" where
  "db_rollback w = w\<lparr>session := committed w\<rparr>"

text \<open>One HTTP request: the vendor answers, and the request is on the log.\<close>

definition send :: "env \<Rightarrow> http_request \<Rightarrow> world \<Rightarrow> http_result \<times> world" where
  "send e req w = (http e (http_log w) req, w\<lparr>http_log := http_log w @ [req]\<rparr>)"

subsection \<open>Python's truth value and \<^verbatim>\<open>dict.get\<close>\<close>

fun truthy :: "json \<Rightarrow> bool" where
  "truthy JNull = False"
| "truthy (JBool b) = b"
| "truthy (JNum n) = (n \<noteq> 0)"
| "truthy (JStr s) = (s \<noteq> [])"
| "truthy (JArr xs) = (xs \<noteq> [])"
| "truthy (JObj kvs) = (kvs \<noteq> [])"

text \<open>\<^verbatim>\<open>data.get(k, default)\<close>: only a dict has \<^verbatim>\<open>get\<close>; any other value raises \<^verbatim>\<open>AttributeError\<close>.\<close>

fun py_get :: "json \<Rightarrow> string \<Rightarrow> json \<Rightarrow> exn + json" where
  "py_get (JObj kvs) k dflt = (case map_of kvs k of None \<Rightarrow> Inr dflt | Some v \<Rightarrow> Inr v)"
| "py_get _ k dflt = Inl AttributeError"

section \<open>Looking an invitation up (\<^verbatim>\<open>app/blueprints/public/routes.py\<close>)\<close>

text \<open>
  \<^verbatim>\<open>Invitation.query.filter(db.func.lower(Invitation.code) == code.lower()).first()\<close>, the query
  that \<^verbatim>\<open>invite\<close>, \<^verbatim>\<open>join\<close> and \<^verbatim>\<open>password_prompt\<close> each start with.
\<close>

definition lookup_invitation :: "db \<Rightarrow> string \<Rightarrow> invitation option" where
  "lookup_invitation d code = find (\<lambda>i. lower (inv_code i) = lower code) (invitations d)"

text \<open>
  \<^verbatim>\<open>invitation.servers\<close>: the attached servers, in attachment order. \<^verbatim>\<open>invitation.server\<close>: the
  row the foreign key points to, if any. \<^verbatim>\<open>MediaServer.query.first()\<close>: the first configured
  server.
\<close>

definition invitation_servers :: "db \<Rightarrow> invitation \<Rightarrow> media_server list" where
  "invitation_servers d i =
     concat (map (\<lambda>sid. filter (\<lambda>m. ms_id m = sid) (media_servers d)) (inv_servers i))"

definition invitation_server :: "db \<Rightarrow> invitation \<Rightarrow> media_server option" where
  "invitation_server d i =
     (case inv_server_id i of
        None \<Rightarrow> None
      | Some sid \<Rightarrow> find (\<lambda>m. ms_id m = sid) (media_servers d))"

definition server_or_first :: "db \<Rightarrow> invitation \<Rightarrow> media_server option" where
  "server_or_first d i =
     (case invitation_server d i of
        Some m \<Rightarrow> Some m
      | None \<Rightarrow> (case media_servers d of [] \<Rightarrow> None | m # ms \<Rightarrow> Some m))"

definition password_signup_types :: "string list" where
  "password_signup_types = [''jellyfin'', ''emby'', ''audiobookshelf'', ''romm'']"

text \<open>
  \<^verbatim>\<open>invite\<close> (GET /j/<code>). When \<^verbatim>\<open>is_invite_valid\<close> accepts a code that the query did not
  find, \<^verbatim>\<open>invitation.server\<close> raises \<^verbatim>\<open>AttributeError\<close>.
\<close>

definition invite :: "env \<Rightarrow> string \<Rightarrow> world \<Rightarrow> exn + response" where
  "invite e code w =
     (let invitation = lookup_invitation (session w) code in
      case is_invite_valid e (session w) code of
        (valid, msg) \<Rightarrow>
          if \<not> valid then Inr (RenderTemplate ''invalid-invite.html'' [(''error'', Some msg)])
          else
            (case invitation of
               None \<Rightarrow> Inl AttributeError
             | Some i \<Rightarrow>
                 let server_type = map_option ms_server_type (server_or_first (session w) i) in
                 if server_type \<in> Some ` set password_signup_types
                 then Inr (RenderTemplate ''welcome-jellyfin.html''
                             [(''form.code'', Some code), (''server_type'', server_type)])
                 else Inr (RenderTemplate ''user-plex-login.html'' [(''code'', Some code)])))"

text \<open>
  \<^verbatim>\<open>join\<close> (POST /join). The form may lack \<^verbatim>\<open>code\<close>, and then \<^verbatim>\<open>code.lower()\<close> raises.
\<close>

definition join :: "env \<Rightarrow> string option \<Rightarrow> string option \<Rightarrow> world \<Rightarrow> (exn + response) \<times> world" where
  "join e form_code token w =
     (case form_code of
        None \<Rightarrow> (Inl AttributeError, w)
      | Some code \<Rightarrow>
          let invitation = lookup_invitation (session w) code in
          case is_invite_valid e (session w) code of
            (valid, msg) \<Rightarrow>
              if \<not> valid then
                (Inr (RenderTemplate ''user-plex-login.html''
                        [(''name'', (case map_of (app_settings (session w)) ''server_name'' of
                                      None \<Rightarrow> None | Some v \<Rightarrow> v)),
                         (''code'', Some code), (''code_error'', Some msg)]), w)
              else
                (case invitation of
                   None \<Rightarrow> (Inl AttributeError, w)
                 | Some i \<Rightarrow>
                     let server_type = map_option ms_server_type (server_or_first (session w) i) in
                     if server_type = Some ''plex'' then
                       let w1 = handle_oauth_token e token code w;
                           extra = filter (\<lambda>s. ms_server_type s \<noteq> ''plex'')
                                     (invitation_servers (session w1) i)
                       in if extra \<noteq> [] then
                            (Inr (Redirect ''public.password_prompt''),
                             w1\<lparr>flask_session := [(''invite_code'', Some code), (''invite_token'', token)]
                                                 @ flask_session w1\<rparr>)
                          else
                            (Inr (Redirect ''wizard.start''),
                             w1\<lparr>flask_session := (''wizard_access'', Some code) # flask_session w1\<rparr>)
                     else if server_type \<in> Some ` set password_signup_types then
                       (Inr (RenderTemplate ''welcome-jellyfin.html''
                               [(''code'', Some code), (''server_type'', server_type)]), w)
                     else
                       (Inr (RenderTemplate ''invalid-invite.html''
                               [(''error'', Some ''Configuration error.'')]), w)))"

section \<open>The password prompt for multi-server invitations\<close>

text \<open>
  Modelled from the spec: \<^verbatim>\<open>app.services.invites.mark_server_used\<close> is not under src/; sections
  4.3 and 4.5 say it marks the ledger entry of the (invitation, server) pair as done. It
  writes to the database, so it ends in a commit, which may raise.
\<close>

definition mark_server_used :: "env \<Rightarrow> invitation \<Rightarrow> int option \<Rightarrow> world \<Rightarrow> (exn + unit) \<times> world" where
  "mark_server_used e i sid w =
     db_commit e (w\<lparr>session := (session w)\<lparr>ledger := ledger (session w) @ [(inv_id i, sid)]\<rparr>\<rparr>)"

text \<open>The primary key the database gives the next \<^verbatim>\<open>User\<close> row: one above the largest in use.\<close>

definition next_user_id :: "db \<Rightarrow> int" where
  "next_user_id d = fold max (map u_id (users d)) 0 + 1"

definition add_user :: "user \<Rightarrow> db \<Rightarrow> db" where
  "add_user u d = d\<lparr>users := users d @ [u]\<rparr>"

text \<open>\<^verbatim>\<open>invitation.used_by = invitation.used_by or new_user\<close>, on the session's row of the invitation.\<close>

definition set_used_by_if_unset :: "int \<Rightarrow> int \<Rightarrow> db \<Rightarrow> db" where
  "set_used_by_if_unset iid uid d =
     d\<lparr>invitations :=
         map (\<lambda>i. if inv_id i = iid \<and> inv_used_by_id i = None then i\<lparr>inv_used_by_id := Some uid\<rparr> else i)
           (invitations d)\<rparr>"

text \<open>
  \<^verbatim>\<open>username = plex_user.username if plex_user else (plex_user.email.split("@")[0] if plex_user
  else "wizarr")\<close>, with both tests of \<^verbatim>\<open>plex_user\<close> as the source has them. The inner
  left branch would raise \<^verbatim>\<open>AttributeError\<close> on an e-mail that is \<^verbatim>\<open>None\<close>.
\<close>

definition username_for :: "user option \<Rightarrow> exn + string" where
  "username_for plex_user =
     (if plex_user \<noteq> None then Inr (u_username (the plex_user))
      else (if plex_user \<noteq> None
            then (case u_email (the plex_user) of
                    None \<Rightarrow> Inl AttributeError
                  | Some m \<Rightarrow> Inr (takeWhile (\<lambda>c. c \<noteq> CHR ''@'') m))
            else Inr ''wizarr''))"

definition email_for :: "user option \<Rightarrow> string option" where
  "email_for plex_user = (if plex_user \<noteq> None then u_email (the plex_user) else Some ''user@example.com'')"

text \<open>
  The call the loop makes for a server, by its type: no call for a type it does not know.
  Modelled from the spec: \<^verbatim>\<open>get_client_for_media_server\<close> is not under src/; section 4.4 makes
  it a pure lookup from the server row, so the client is identified with the server it was
  built for, and what its \<^verbatim>\<open>create_user\<close> answers is the environment's \<open>client_create_user\<close>.
\<close>

definition create_user_call :: "media_server \<Rightarrow> string \<Rightarrow> string \<Rightarrow> string option \<Rightarrow> vendor_call option" where
  "create_user_call srv username pw email =
     (if ms_server_type srv \<in> {''jellyfin'', ''emby''} then
        Some \<lparr>vc_server = srv, vc_username = username, vc_password = pw, vc_email = NoEmail\<rparr>
      else if ms_server_type srv = ''audiobookshelf'' then
        Some \<lparr>vc_server = srv, vc_username = username, vc_password = pw, vc_email = Email email\<rparr>
      else if ms_server_type srv = ''romm'' then
        Some \<lparr>vc_server = srv, vc_username = username, vc_password = pw, vc_email = Email email\<rparr>
      else None)"

definition provisioned_user :: "db \<Rightarrow> json \<Rightarrow> string \<Rightarrow> string option \<Rightarrow> string \<Rightarrow> media_server \<Rightarrow> user" where
  "provisioned_user d uid username email code srv =
     \<lparr>u_id = next_user_id d, u_token = uid, u_username = username, u_email = email,
      u_code = code, u_expires = None, u_password = None, u_server_id = Some (ms_id srv)\<rparr>"

text \<open>The body of the \<^verbatim>\<open>try\<close> block: the state it returns with an exception is the state at the raise.\<close>

definition try_provision ::
  "env \<Rightarrow> invitation \<Rightarrow> string \<Rightarrow> string \<Rightarrow> string option \<Rightarrow> string \<Rightarrow> media_server \<Rightarrow> world
   \<Rightarrow> (exn + unit) \<times> world" where
  "try_provision e invitation code username email pw srv w =
     (case create_user_call srv username pw email of
        None \<Rightarrow> (Inr (), w)
      | Some call \<Rightarrow>
          let w1 = w\<lparr>vendor_calls := vendor_calls w @ [call]\<rparr> in
          (case client_create_user e (vendor_calls w) call of
             Inl x \<Rightarrow> (Inl x, w1)
           | Inr uid \<Rightarrow>
               let new_user = provisioned_user (session w1) uid username email code srv;
                   w2 = w1\<lparr>session := add_user new_user (session w1)\<rparr>
               in (case db_commit e w2 of
                     (Inl x, w3) \<Rightarrow> (Inl x, w3)
                   | (Inr u, w3) \<Rightarrow>
                       mark_server_used e invitation (Some (ms_id srv))
                         (w3\<lparr>session := set_used_by_if_unset (inv_id invitation) (u_id new_user)
                                           (session w3)\<rparr>))))"

definition provision_failure_message :: "media_server \<Rightarrow> string" where
  "provision_failure_message srv = ''Failed to provision user on '' @ ms_name srv"

text \<open>
  One round of the loop over \<^verbatim>\<open>invitation.servers\<close>. The user name is computed outside the
  \<^verbatim>\<open>try\<close>, so an exception there would leave the handler.
\<close>

definition provision_server ::
  "env \<Rightarrow> invitation \<Rightarrow> string \<Rightarrow> user option \<Rightarrow> string \<Rightarrow> media_server \<Rightarrow> world
   \<Rightarrow> (exn + unit) \<times> world" where
  "provision_server e invitation code plex_user pw srv w =
     (if ms_server_type srv = ''plex'' then (Inr (), w)
      else
        (case username_for plex_user of
           Inl x \<Rightarrow> (Inl x, w)
         | Inr username \<Rightarrow>
             (case try_provision e invitation code username (email_for plex_user) pw srv w of
                (Inr u, w') \<Rightarrow> (Inr (), w')
              | (Inl x, w') \<Rightarrow>
                  (Inr (), (db_rollback w')\<lparr>error_log := error_log w' @ [provision_failure_message srv]\<rparr>))))"

fun provision_loop ::
  "env \<Rightarrow> invitation \<Rightarrow> string \<Rightarrow> user option \<Rightarrow> string \<Rightarrow> media_server list \<Rightarrow> world
   \<Rightarrow> (exn + unit) \<times> world" where
  "provision_loop e invitation code plex_user pw [] w = (Inr (), w)"
| "provision_loop e invitation code plex_user pw (srv # rest) w =
     (case provision_server e invitation code plex_user pw srv w of
        (Inl x, w') \<Rightarrow> (Inl x, w')
      | (Inr u, w') \<Rightarrow> provision_loop e invitation code plex_user pw rest w')"

datatype http_method = GET | POST

text \<open>The fields of the posted form; a field the form lacks is \<open>None\<close>.\<close>

record password_form =
  f_password :: "string option"
  f_confirm :: "string option"
  f_generate :: "string option"

definition or_empty :: "string option \<Rightarrow> string" where
  "or_empty v = (case v of None \<Rightarrow> [] | Some s \<Rightarrow> s)"

text \<open>\<^verbatim>\<open>pw.strip() == ""\<close>: every character is white space.\<close>

definition is_space :: "char \<Rightarrow> bool" where
  "is_space c = (let n = (of_char c :: nat) in (9 \<le> n \<and> n \<le> 13) \<or> (28 \<le> n \<and> n \<le> 32) \<or> n = 133 \<or> n = 160)"

definition plex_user_of :: "db \<Rightarrow> string \<Rightarrow> media_server list \<Rightarrow> user option" where
  "plex_user_of d code servers =
     (case find (\<lambda>s. ms_server_type s = ''plex'') servers of
        None \<Rightarrow> None
      | Some plex_server \<Rightarrow>
          find (\<lambda>u. u_code u = code \<and> u_server_id u = Some (ms_id plex_server)) (users d))"

definition password_prompt ::
  "env \<Rightarrow> string \<Rightarrow> http_method \<Rightarrow> password_form \<Rightarrow> world \<Rightarrow> (exn + response) \<times> world" where
  "password_prompt e code method frm w =
     (case lookup_invitation (session w) code of
        None \<Rightarrow> (Inr (RenderTemplate ''invalid-invite.html'' [(''error'', Some ''Invalid invite'')]), w)
      | Some invitation \<Rightarrow>
          let servers = invitation_servers (session w) invitation;
              plex_user = plex_user_of (session w) code servers
          in if method = POST then
               let pw = or_empty (f_password frm);
                   confirm = or_empty (f_confirm frm)
               in if pw \<noteq> confirm \<or> length pw < 8 then
                    (Inr (RenderTemplate ''choose-password.html''
                            [(''code'', Some code),
                             (''error'', Some ''Passwords do not match or too short (8 chars).'')]), w)
                  else
                    let pw' = (if or_empty (f_generate frm) \<noteq> [] \<or> list_all is_space pw
                               then generated_password e else pw)
                    in (case provision_loop e invitation code plex_user pw' servers w of
                          (Inl x, w') \<Rightarrow> (Inl x, w')
                        | (Inr u, w') \<Rightarrow>
                            (Inr (Redirect ''wizard.start''),
                             w'\<lparr>flask_session := (''wizard_access'', Some code) # flask_session w'\<rparr>))
             else (Inr (RenderTemplate ''choose-password.html'' [(''code'', Some code)]), w))"

section \<open>Deleting a media server (\<^verbatim>\<open>app/blueprints/media_servers/routes.py\<close>)\<close>




section \<open>The RomM client (\<^verbatim>\<open>app/services/media/romm.py\<close>)\<close>

definition romm_payload :: "string \<Rightarrow> string \<Rightarrow> string option \<Rightarrow> (string \<times> json) list" where
  "romm_payload username password email =
     [(''username'', JStr username),
      (''password'', JStr password),
      (''email'', (case email of None \<Rightarrow> JNull | Some m \<Rightarrow> JStr m)),
      (''role'', JStr ''VIEWER'')]"

text \<open>
  \<^verbatim>\<open>try: r = self.post(...) except requests.HTTPError as exc: r = exc.response\<close>. Any other
  exception leaves \<^verbatim>\<open>create_user\<close>.
\<close>

definition response_of :: "http_result \<Rightarrow> exn + http_response option" where
  "response_of res =
     (case res of
        Returned r \<Rightarrow> Inr (Some r)
      | RaisedHTTPError r \<Rightarrow> Inr r
      | RaisedOther x \<Rightarrow> Inl x)"

definition romm_attempt :: "env \<Rightarrow> http_request \<Rightarrow> world \<Rightarrow> (exn + http_response option) \<times> world" where
  "romm_attempt e req w = (case send e req w of (res, w') \<Rightarrow> (response_of res, w'))"

definition is_422 :: "http_response option \<Rightarrow> bool" where
  "is_422 r = (case r of None \<Rightarrow> False | Some resp \<Rightarrow> status_code resp = 422)"

text \<open>
  The end of \<^verbatim>\<open>create_user\<close>: \<^verbatim>\<open>data\<close> is the parsed body, or \<^verbatim>\<open>{}\<close> when there is no response or
  the body is not JSON; the result is \<^verbatim>\<open>data.get("id") or data.get("user", {}).get("id")\<close>.
\<close>

definition extract_id :: "http_response option \<Rightarrow> exn + json" where
  "extract_id r =
     (let data = (case r of
                    None \<Rightarrow> JObj []
                  | Some resp \<Rightarrow> (case body resp of None \<Rightarrow> JObj [] | Some j \<Rightarrow> j))
      in case py_get data ''id'' JNull of
           Inl x \<Rightarrow> Inl x
         | Inr v \<Rightarrow>
             if truthy v then Inr v
             else (case py_get data ''user'' (JObj []) of
                     Inl x \<Rightarrow> Inl x
                   | Inr u \<Rightarrow> py_get u ''id'' JNull))"

definition romm_first_request :: "string \<Rightarrow> string \<Rightarrow> string option \<Rightarrow> http_request" where
  "romm_first_request username password email =
     PostParams ''/api/users'' (romm_payload username password email)"

definition romm_fallback_request :: "string \<Rightarrow> string \<Rightarrow> string option \<Rightarrow> http_request" where
  "romm_fallback_request username password email =
     PostJson ''/api/users''
       (JObj (romm_payload username password email @ [(''passwordConfirm'', JStr password)]))"

text \<open>\<^verbatim>\<open>RommClient.create_user\<close>. The warnings it logs are not part of the state.\<close>

definition romm_create_user ::
  "env \<Rightarrow> string \<Rightarrow> string \<Rightarrow> string option \<Rightarrow> world \<Rightarrow> (exn + json) \<times> world" where
  "romm_create_user e username password email w =
     (case romm_attempt e (romm_first_request username password email) w of
        (Inl x, w1) \<Rightarrow> (Inl x, w1)
      | (Inr r, w1) \<Rightarrow>
          (case (if is_422 r
                 then romm_attempt e (romm_fallback_request username password email) w1
                 else (Inr r, w1)) of
             (Inl x, w2) \<Rightarrow> (Inl x, w2)
           | (Inr r2, w2) \<Rightarrow> (extract_id r2, w2)))"

section \<open>Self-service sign-up: \<^verbatim>\<open>join\<close> of the Komga and RomM clients\<close>

subsection \<open>The checks both clients start with\<close>

text \<open>
  \<^verbatim>\<open>EMAIL_RE.fullmatch(email)\<close> for the pattern
  \<^verbatim>\<open>^[A-Za-z0-9._%+-]+@[A-Za-z0-9.-]+\.[A-Za-z]{2,7}$\<close>. The local part cannot hold an \<open>@\<close>, so
  it is the text before the first \<open>@\<close>; the last group cannot hold a dot, so it is the text
  after the last dot of what follows the \<open>@\<close>.
\<close>

definition is_alpha :: "char \<Rightarrow> bool" where
  "is_alpha c = (let n = (of_char c :: nat) in (65 \<le> n \<and> n \<le> 90) \<or> (97 \<le> n \<and> n \<le> 122))"

definition is_alnum :: "char \<Rightarrow> bool" where
  "is_alnum c = (let n = (of_char c :: nat) in is_alpha c \<or> (48 \<le> n \<and> n \<le> 57))"

definition local_char :: "char \<Rightarrow> bool" where
  "local_char c = (is_alnum c \<or> c \<in> set ''._%+-'')"

definition domain_char :: "char \<Rightarrow> bool" where
  "domain_char c = (is_alnum c \<or> c \<in> set ''.-'')"

definition email_re_fullmatch :: "string \<Rightarrow> bool" where
  "email_re_fullmatch s =
     (let local_part = takeWhile (\<lambda>c. c \<noteq> CHR ''@'') s;
          rest = dropWhile (\<lambda>c. c \<noteq> CHR ''@'') s
      in local_part \<noteq> [] \<and> list_all local_char local_part \<and> rest \<noteq> [] \<and>
         (let dom = tl rest;
              tld = rev (takeWhile (\<lambda>c. c \<noteq> CHR ''.'') (rev dom));
              host_dot = rev (dropWhile (\<lambda>c. c \<noteq> CHR ''.'') (rev dom))
          in host_dot \<noteq> [] \<and> butlast host_dot \<noteq> [] \<and> list_all domain_char (butlast host_dot)
             \<and> 2 \<le> length tld \<and> length tld \<le> 7 \<and> list_all is_alpha tld))"

text \<open>The messages. The dash of the second one is an en dash, written as its three UTF-8 bytes.\<close>

definition invalid_email_message :: string where
  "invalid_email_message = ''Invalid e-mail address.''"

definition password_length_message :: string where
  "password_length_message = ''Password must be 8'' @ [CHR 0xE2, CHR 0x80, CHR 0x93] @ ''20 characters.''"

definition password_mismatch_message :: string where
  "password_mismatch_message = ''Passwords do not match.''"

definition user_exists_message :: string where
  "user_exists_message = ''User or e-mail already exists.''"

definition unexpected_error_message :: string where
  "unexpected_error_message = ''An unexpected error occurred.''"

text \<open>
  \<^verbatim>\<open>User.query.filter(or_(User.username == username, User.email == email), User.server_id ==
  getattr(self, "server_id", None)).first()\<close>
\<close>

definition existing_user :: "db \<Rightarrow> int option \<Rightarrow> string \<Rightarrow> string \<Rightarrow> user option" where
  "existing_user d self_server_id username email =
     find (\<lambda>u. (u_username u = username \<or> u_email u = Some email) \<and> u_server_id u = self_server_id)
       (users d)"

subsection \<open>What both clients do after the remote account exists\<close>

text \<open>\<^verbatim>\<open>Invitation.query.filter_by(code=code).first()\<close>: an exact comparison of the code.\<close>

definition invitation_by_code :: "db \<Rightarrow> string \<Rightarrow> invitation option" where
  "invitation_by_code d code = find (\<lambda>i. inv_code i = code) (invitations d)"

definition invitation_libraries :: "db \<Rightarrow> invitation \<Rightarrow> library list" where
  "invitation_libraries d i =
     concat (map (\<lambda>lid. filter (\<lambda>l. lib_id l = lid) (libraries d)) (inv_libraries i))"

text \<open>
  \<^verbatim>\<open>int(inv.duration)\<close> raises \<^verbatim>\<open>ValueError\<close> on text that is not a number, and adding the days to
  the clock raises \<^verbatim>\<open>OverflowError\<close> out of range. An empty duration is falsy.
\<close>

definition membership_expiry :: "env \<Rightarrow> string option \<Rightarrow> exn + timestamp option" where
  "membership_expiry e duration =
     (case duration of
        None \<Rightarrow> Inr None
      | Some s \<Rightarrow>
          if s = [] then Inr None
          else (case py_int e s of
                  None \<Rightarrow> Inl ValueError
                | Some days \<Rightarrow>
                    (case plus_days e (utcnow e) days of
                       None \<Rightarrow> Inl OverflowError
                     | Some t \<Rightarrow> Inr (Some t))))"

text \<open>\<^verbatim>\<open>inv.used_by = new_user\<close>, on the session's row of the invitation.\<close>

definition set_used_by :: "int \<Rightarrow> int \<Rightarrow> db \<Rightarrow> db" where
  "set_used_by iid uid d =
     d\<lparr>invitations :=
         map (\<lambda>i. if inv_id i = iid then i\<lparr>inv_used_by_id := Some uid\<rparr> else i) (invitations d)\<rparr>"

text \<open>\<^verbatim>\<open>a or b\<close> on ids: \<^verbatim>\<open>None\<close> and \<open>0\<close> are falsy.\<close>

definition or_id :: "int option \<Rightarrow> int option \<Rightarrow> int option" where
  "or_id a b = (if a = None \<or> a = Some 0 then b else a)"

text \<open>
  Modelled from the spec: \<^verbatim>\<open>app.services.notifications.notify\<close> is not under src/; section 6
  makes it fire-and-forget with failures swallowed, so it records the notification and
  never raises. The message ends in an emoji, written as its four UTF-8 bytes.
\<close>

definition notify_new_user :: "string \<Rightarrow> world \<Rightarrow> world" where
  "notify_new_user username w =
     w\<lparr>notifications := notifications w
         @ [(''New User'', ''User '' @ username @ '' has joined your server! ''
                            @ [CHR 0xF0, CHR 0x9F, CHR 0x8E, CHR 0x89])]\<rparr>"

text \<open>
  The new row is added and committed; then the invitation is linked and marked. The
  state returned with an exception is the state at the raise.
\<close>

definition record_user :: "env \<Rightarrow> user \<Rightarrow> invitation option \<Rightarrow> world \<Rightarrow> (exn + unit) \<times> world" where
  "record_user e new_user invt w =
     (case db_commit e (w\<lparr>session := add_user new_user (session w)\<rparr>) of
        (Inl x, w1) \<Rightarrow> (Inl x, w1)
      | (Inr u, w1) \<Rightarrow>
          (case invt of
             None \<Rightarrow> (Inr (), w1)
           | Some i \<Rightarrow>
               mark_server_used e i
                 (or_id (u_server_id new_user) (map_option ms_id (invitation_server (session w1) i)))
                 (w1\<lparr>session := set_used_by (inv_id i) (u_id new_user) (session w1)\<rparr>)))"

subsection \<open>Komga\<close>

text \<open>\<^verbatim>\<open>d[k]\<close>: \<^verbatim>\<open>KeyError\<close> for a dict without the key, \<^verbatim>\<open>TypeError\<close> for a value that is no dict.\<close>

fun py_index :: "json \<Rightarrow> string \<Rightarrow> exn + json" where
  "py_index (JObj kvs) k = (case map_of kvs k of None \<Rightarrow> Inl KeyError | Some v \<Rightarrow> Inr v)"
| "py_index _ k = Inl TypeError"

definition komga_create_request :: "string \<Rightarrow> string \<Rightarrow> http_request" where
  "komga_create_request password email =
     PostJson ''/api/v1/users''
       (JObj [(''email'', JStr email), (''password'', JStr password), (''roles'', JArr [JStr ''USER''])])"

text \<open>\<^verbatim>\<open>KomgaClient.create_user\<close>: every failure of the request or of reading the id raises.\<close>

definition komga_create_user ::
  "env \<Rightarrow> string \<Rightarrow> string \<Rightarrow> string \<Rightarrow> world \<Rightarrow> (exn + json) \<times> world" where
  "komga_create_user e username password email w =
     (case send e (komga_create_request password email) w of
        (Returned r, w') \<Rightarrow> (case body r of None \<Rightarrow> (Inl ValueError, w') | Some j \<Rightarrow> (py_index j ''id'', w'))
      | (RaisedHTTPError r, w') \<Rightarrow> (Inl HTTPError, w')
      | (RaisedOther x, w') \<Rightarrow> (Inl x, w'))"

text \<open>\<^verbatim>\<open>_set_library_access\<close>: one PUT per library, stopping without raising at the first that fails.\<close>

fun put_each :: "env \<Rightarrow> string list \<Rightarrow> world \<Rightarrow> world" where
  "put_each e [] w = w"
| "put_each e (p # ps) w =
     (case send e (PutReq p) w of
        (Returned r, w') \<Rightarrow> put_each e ps w'
      | (RaisedHTTPError r, w') \<Rightarrow> w'
      | (RaisedOther x, w') \<Rightarrow> w')"

definition set_library_access :: "env \<Rightarrow> json \<Rightarrow> string list \<Rightarrow> world \<Rightarrow> world" where
  "set_library_access e user_id library_ids w =
     put_each e
       (map (\<lambda>l. ''/api/v1/users/'' @ py_str e user_id @ ''/shared-libraries/'' @ l) library_ids) w"

definition komga_library_ids :: "db \<Rightarrow> invitation \<Rightarrow> string list" where
  "komga_library_ids d i =
     (let sid = map_option ms_id (invitation_server d i) in
      if invitation_libraries d i \<noteq> []
      then map lib_external_id (filter (\<lambda>l. lib_server_id l = sid) (invitation_libraries d i))
      else map lib_external_id (filter (\<lambda>l. lib_enabled l \<and> lib_server_id l = sid) (libraries d)))"

definition komga_new_user ::
  "db \<Rightarrow> invitation \<Rightarrow> json \<Rightarrow> string \<Rightarrow> string \<Rightarrow> string \<Rightarrow> timestamp option \<Rightarrow> user" where
  "komga_new_user d i user_id username email code expires =
     \<lparr>u_id = next_user_id d, u_token = user_id, u_username = username, u_email = Some email,
      u_code = code, u_expires = expires, u_password = None,
      u_server_id = map_option ms_id (invitation_server d i)\<rparr>"

text \<open>
  The \<^verbatim>\<open>try\<close> block of \<^verbatim>\<open>KomgaClient.join\<close> after \<^verbatim>\<open>create_user\<close> returned: \<^verbatim>\<open>inv.libraries\<close> raises
  \<^verbatim>\<open>AttributeError\<close> when no invitation has exactly this code.
\<close>

definition komga_after_create ::
  "env \<Rightarrow> json \<Rightarrow> string \<Rightarrow> string \<Rightarrow> string \<Rightarrow> world \<Rightarrow> (exn + unit) \<times> world" where
  "komga_after_create e user_id username email code w =
     (case invitation_by_code (session w) code of
        None \<Rightarrow> (Inl AttributeError, w)
      | Some i \<Rightarrow>
          let w1 = set_library_access e user_id (komga_library_ids (session w) i) w in
          (case membership_expiry e (inv_duration i) of
             Inl x \<Rightarrow> (Inl x, w1)
           | Inr expires \<Rightarrow>
               (case record_user e (komga_new_user (session w1) i user_id username email code expires)
                       (Some i) w1 of
                  (Inl x, w2) \<Rightarrow> (Inl x, w2)
                | (Inr u, w2) \<Rightarrow> (Inr (), notify_new_user username w2))))"

definition komga_try :: "env \<Rightarrow> string \<Rightarrow> string \<Rightarrow> string \<Rightarrow> string \<Rightarrow> world \<Rightarrow> (exn + unit) \<times> world" where
  "komga_try e username password email code w =
     (case komga_create_user e username password email w of
        (Inl x, w1) \<Rightarrow> (Inl x, w1)
      | (Inr user_id, w1) \<Rightarrow> komga_after_create e user_id username email code w1)"

text \<open>The \<^verbatim>\<open>except\<close> branch of both clients: log, roll back, report.\<close>

definition join_failed :: "string \<Rightarrow> world \<Rightarrow> (bool \<times> string) \<times> world" where
  "join_failed log_line w =
     ((False, unexpected_error_message), (db_rollback w)\<lparr>error_log := error_log w @ [log_line]\<rparr>)"

definition komga_join ::
  "env \<Rightarrow> int option \<Rightarrow> string \<Rightarrow> string \<Rightarrow> string \<Rightarrow> string \<Rightarrow> string \<Rightarrow> world
   \<Rightarrow> (bool \<times> string) \<times> world" where
  "komga_join e self_server_id username password confirm email code w =
     (if \<not> email_re_fullmatch email then ((False, invalid_email_message), w)
      else if \<not> (8 \<le> length password \<and> length password \<le> 20) then ((False, password_length_message), w)
      else if password \<noteq> confirm then ((False, password_mismatch_message), w)
      else
        (case is_invite_valid e (session w) code of
           (ok, msg) \<Rightarrow>
             if \<not> ok then ((False, msg), w)
             else if existing_user (session w) self_server_id username email \<noteq> None
             then ((False, user_exists_message), w)
             else
               (case komga_try e username password email code w of
                  (Inr u, w') \<Rightarrow> ((True, []), w')
                | (Inl x, w') \<Rightarrow> join_failed ''Komga join error'' w')))"

subsection \<open>RomM\<close>

definition romm_new_user ::
  "db \<Rightarrow> invitation option \<Rightarrow> json \<Rightarrow> string \<Rightarrow> string \<Rightarrow> string \<Rightarrow> string \<Rightarrow> timestamp option \<Rightarrow> user" where
  "romm_new_user d invt user_id username password email code expires =
     \<lparr>u_id = next_user_id d, u_token = user_id, u_username = username, u_email = Some email,
      u_code = code, u_expires = expires, u_password = Some password,
      u_server_id = (case invt of None \<Rightarrow> None | Some i \<Rightarrow> map_option ms_id (invitation_server d i))\<rparr>"

text \<open>
  The \<^verbatim>\<open>try\<close> block of \<^verbatim>\<open>RommClient.join\<close> after \<^verbatim>\<open>create_user\<close> returned. Here a missing
  invitation is tested for at every use.
\<close>

definition romm_after_create ::
  "env \<Rightarrow> json \<Rightarrow> string \<Rightarrow> string \<Rightarrow> string \<Rightarrow> string \<Rightarrow> world \<Rightarrow> (exn + unit) \<times> world" where
  "romm_after_create e user_id username password email code w =
     (let invt = invitation_by_code (session w) code in
      case membership_expiry e (case invt of None \<Rightarrow> None | Some i \<Rightarrow> inv_duration i) of
        Inl x \<Rightarrow> (Inl x, w)
      | Inr expires \<Rightarrow>
          (case record_user e (romm_new_user (session w) invt user_id username password email code expires)
                  invt w of
             (Inl x, w1) \<Rightarrow> (Inl x, w1)
           | (Inr u, w1) \<Rightarrow> (Inr (), notify_new_user username w1)))"

definition romm_try :: "env \<Rightarrow> string \<Rightarrow> string \<Rightarrow> string \<Rightarrow> string \<Rightarrow> world \<Rightarrow> (exn + unit) \<times> world" where
  "romm_try e username password email code w =
     (case romm_create_user e username password (Some email) w of
        (Inl x, w1) \<Rightarrow> (Inl x, w1)
      | (Inr user_id, w1) \<Rightarrow> romm_after_create e user_id username password email code w1)"

definition romm_join ::
  "env \<Rightarrow> int option \<Rightarrow> string \<Rightarrow> string \<Rightarrow> string \<Rightarrow> string \<Rightarrow> string \<Rightarrow> world
   \<Rightarrow> (bool \<times> string) \<times> world" where
  "romm_join e self_server_id username password confirm email code w =
     (if \<not> email_re_fullmatch email then ((False, invalid_email_message), w)
      else if \<not> (8 \<le> length password \<and> length password \<le> 20) then ((False, password_length_message), w)
      else if password \<noteq> confirm then ((False, password_mismatch_message), w)
      else
        (case is_invite_valid e (session w) code of
           (ok, msg) \<Rightarrow>
             if \<not> ok then ((False, msg), w)
             else if existing_user (session w) self_server_id username email \<noteq> None
             then ((False, user_exists_message), w)
             else
               (case romm_try e username password email code w of
                  (Inr u, w') \<Rightarrow> ((True, []), w')
                | (Inl x, w') \<Rightarrow> join_failed ''ROMM join error'' w')))"


section \<open>Synchronising the users of a server: \<^verbatim>\<open>list_users\<close>\<close>





subsection \<open>Komga\<close>







subsection \<open>RomM\<close>

text \<open>
  A user object of RomM by the three entries the code reads. What \<^verbatim>\<open>GET /api/users\<close> answers
  for a given \<^verbatim>\<open>skip\<close> (with \<^verbatim>\<open>take\<close> = 100) is an argument of the model: an exception, a list, a
  dict with the list under \<^verbatim>\<open>items\<close>, or anything else.
\<close>

record romm_remote =
  ru_id :: "json option"
  ru_username :: "string option"
  ru_email :: "string option"






fun update_first :: "('a \<Rightarrow> bool) \<Rightarrow> ('a \<Rightarrow> 'a) \<Rightarrow> 'a list \<Rightarrow> 'a list" where
  "update_first P f [] = []"
| "update_first P f (x # xs) = (if P x then f x # xs else x # update_first P f xs)"

definition romm_synced_user :: "db \<Rightarrow> int option \<Rightarrow> string \<Rightarrow> romm_remote \<Rightarrow> user" where
  "romm_synced_user d self_server_id k ru =
     \<lparr>u_id = next_user_id d, u_token = JStr k,
      u_username = (case ru_username ru of None \<Rightarrow> ''romm-user'' | Some n \<Rightarrow> n),
      u_email = Some (case ru_email ru of None \<Rightarrow> [] | Some m \<Rightarrow> m),
      u_code = ''romm'', u_expires = None, u_password = Some ''romm'', u_server_id = self_server_id\<rparr>"

definition romm_refresh :: "romm_remote \<Rightarrow> user \<Rightarrow> user" where
  "romm_refresh ru r =
     r\<lparr>u_username := (case ru_username ru of None \<Rightarrow> u_username r | Some n \<Rightarrow> n),
       u_email := (case ru_email ru of None \<Rightarrow> u_email r | Some m \<Rightarrow> Some m)\<rparr>"

definition romm_row_of :: "int option \<Rightarrow> string \<Rightarrow> user \<Rightarrow> bool" where
  "romm_row_of self_server_id k r = (u_token r = JStr k \<and> u_server_id r = self_server_id)"

text \<open>One round of the upsert loop: the first row with this token on this server is refreshed, or a row is added.\<close>

definition romm_upsert :: "int option \<Rightarrow> string \<times> romm_remote \<Rightarrow> db \<Rightarrow> db" where
  "romm_upsert self_server_id kv d =
     (case find (romm_row_of self_server_id (fst kv)) (users d) of
        None \<Rightarrow> add_user (romm_synced_user d self_server_id (fst kv) (snd kv)) d
      | Some r \<Rightarrow>
          d\<lparr>users := update_first (romm_row_of self_server_id (fst kv)) (romm_refresh (snd kv)) (users d)\<rparr>)"




section \<open>Notions used to state the properties of \<^verbatim>\<open>join\<close>\<close>

text \<open>The five checks before the remote account is created all pass.\<close>

definition join_checks_pass ::
  "env \<Rightarrow> int option \<Rightarrow> string \<Rightarrow> string \<Rightarrow> string \<Rightarrow> string \<Rightarrow> string \<Rightarrow> world \<Rightarrow> bool" where
  "join_checks_pass e self_server_id username password confirm email code w =
     (email_re_fullmatch email \<and> 8 \<le> length password \<and> length password \<le> 20 \<and> password = confirm
      \<and> fst (is_invite_valid e (session w) code)
      \<and> existing_user (session w) self_server_id username email = None)"

text \<open>
  The row each client builds once the remote account exists, or the exception that one of
  the steps before \<^verbatim>\<open>db.session.add\<close> raises.
\<close>

definition komga_row :: "env \<Rightarrow> json \<Rightarrow> string \<Rightarrow> string \<Rightarrow> string \<Rightarrow> db \<Rightarrow> exn + user" where
  "komga_row e user_id username email code d =
     (case invitation_by_code d code of
        None \<Rightarrow> Inl AttributeError
      | Some i \<Rightarrow>
          (case membership_expiry e (inv_duration i) of
             Inl x \<Rightarrow> Inl x
           | Inr expires \<Rightarrow> Inr (komga_new_user d i user_id username email code expires)))"

definition romm_row :: "env \<Rightarrow> json \<Rightarrow> string \<Rightarrow> string \<Rightarrow> string \<Rightarrow> string \<Rightarrow> db \<Rightarrow> exn + user" where
  "romm_row e user_id username password email code d =
     (case membership_expiry e (case invitation_by_code d code of None \<Rightarrow> None
                                | Some i \<Rightarrow> inv_duration i) of
        Inl x \<Rightarrow> Inl x
      | Inr expires \<Rightarrow>
          Inr (romm_new_user d (invitation_by_code d code) user_id username password email code expires))"

text \<open>
  A step raises before the local commit is done: building the row raises, or the commit of
  the row raises.
\<close>

definition fails_before_commit :: "env \<Rightarrow> exn + user \<Rightarrow> db \<Rightarrow> bool" where
  "fails_before_commit e row d =
     (case row of Inl x \<Rightarrow> True | Inr u \<Rightarrow> commit_raises e (add_user u d))"


text \<open>
  The database once the row is added, the invitation is linked to it and the ledger entry
  of the row's server is written: what the commit inside \<^verbatim>\<open>mark_server_used\<close> is to write.
\<close>

definition marked_db :: "user \<Rightarrow> invitation \<Rightarrow> db \<Rightarrow> db" where
  "marked_db u i d =
     (let a = add_user u d;
          s = set_used_by (inv_id i) (u_id u) a
      in s\<lparr>ledger := ledger s
              @ [(inv_id i, or_id (u_server_id u) (map_option ms_id (invitation_server a i)))]\<rparr>)"

text \<open>
  A step raises after the local commit is done: the row was committed, there is an
  invitation to mark, and marking it raises.
\<close>

definition fails_after_commit :: "env \<Rightarrow> exn + user \<Rightarrow> invitation option \<Rightarrow> db \<Rightarrow> bool" where
  "fails_after_commit e row invt d =
     (case row of
        Inl x \<Rightarrow> False
      | Inr u \<Rightarrow>
          \<not> commit_raises e (add_user u d)
          \<and> (case invt of None \<Rightarrow> False | Some i \<Rightarrow> commit_raises e (marked_db u i d)))"

text \<open>The database a successful \<^verbatim>\<open>join\<close> leaves.\<close>

definition joined_db :: "user \<Rightarrow> invitation option \<Rightarrow> db \<Rightarrow> db" where
  "joined_db u invt d = (case invt of None \<Rightarrow> add_user u d | Some i \<Rightarrow> marked_db u i d)"


section \<open>Notions used to state the properties of the password prompt\<close>

text \<open>
  The user name the loop is found to use (see \<open>username_for_eq\<close>), the posted form that
  passes the check of the two password fields, and the password that is then used.
\<close>

definition expected_username :: "user option \<Rightarrow> string" where
  "expected_username plex_user = (case plex_user of Some u \<Rightarrow> u_username u | None \<Rightarrow> ''wizarr'')"

definition form_accepted :: "password_form \<Rightarrow> bool" where
  "form_accepted frm =
     (or_empty (f_password frm) = or_empty (f_confirm frm) \<and> 8 \<le> length (or_empty (f_password frm)))"

definition chosen_password :: "env \<Rightarrow> password_form \<Rightarrow> string" where
  "chosen_password e frm =
     (if or_empty (f_generate frm) \<noteq> [] \<or> list_all is_space (or_empty (f_password frm))
      then generated_password e else or_empty (f_password frm))"

text \<open>
  The database after a server was provisioned: the new row, the invitation's \<^verbatim>\<open>used_by\<close>
  if it had none, and the ledger entry.
\<close>

definition provisioned_db ::
  "db \<Rightarrow> invitation \<Rightarrow> json \<Rightarrow> string \<Rightarrow> string option \<Rightarrow> string \<Rightarrow> media_server \<Rightarrow> db" where
  "provisioned_db d i uid username email code srv =
     (let new_user = provisioned_user d uid username email code srv;
          d1 = set_used_by_if_unset (inv_id i) (u_id new_user) (add_user new_user d)
      in d1\<lparr>ledger := ledger d1 @ [(inv_id i, Some (ms_id srv))]\<rparr>)"

text \<open>An attempt fails when the vendor's \<^verbatim>\<open>create_user\<close> raises or the commit of the new row raises.\<close>

definition provision_fails ::
  "env \<Rightarrow> string \<Rightarrow> user option \<Rightarrow> media_server \<Rightarrow> vendor_call \<Rightarrow> world \<Rightarrow> bool" where
  "provision_fails e code plex_user srv call w =
     (case client_create_user e (vendor_calls w) call of
        Inl x \<Rightarrow> True
      | Inr uid \<Rightarrow>
          commit_raises e
            (add_user (provisioned_user (session w) uid (expected_username plex_user)
                         (email_for plex_user) code srv) (session w)))"


section \<open>Notions used to state the properties of \<^verbatim>\<open>list_users\<close>\<close>






section \<open>A small deployment, for the examples\<close>

text \<open>
  One invitation, \<open>ABC123\<close>, attached to a Plex server (id 1) and a Jellyfin server (id 2);
  the Plex account of the redeemer is already recorded.
\<close>

definition demo_server :: "int \<Rightarrow> string \<Rightarrow> media_server" where
  "demo_server n t =
     \<lparr>ms_id = n, ms_name = t, ms_server_type = t, ms_url = ''http://'' @ t, ms_api_key = None\<rparr>"

definition demo_invitation :: invitation where
  "demo_invitation =
     \<lparr>inv_id = 1, inv_code = ''ABC123'', inv_used = False, inv_used_by_id = None,
      inv_expires = None, inv_unlimited = Some False, inv_duration = None,
      inv_server_id = Some 1, inv_servers = [1, 2], inv_libraries = []\<rparr>"

definition demo_plex_user :: user where
  "demo_plex_user =
     \<lparr>u_id = 1, u_token = JStr ''plex-token'', u_username = ''plexbob'', u_email = Some ''bob@x.com'',
      u_code = ''ABC123'', u_expires = None, u_password = None, u_server_id = Some 1\<rparr>"

definition demo_db :: db where
  "demo_db =
     \<lparr>users = [demo_plex_user], invitations = [demo_invitation],
      media_servers = [demo_server 1 ''plex'', demo_server 2 ''jellyfin''],
      libraries = [], app_settings = [], ledger = []\<rparr>"

definition demo_world :: world where
  "demo_world =
     \<lparr>committed = demo_db, session = demo_db, http_log = [], vendor_calls = [], error_log = [],
      notifications = [], flask_session = []\<rparr>"

text \<open>
  An environment in which every vendor accepts, no commit fails and every invitation is
  valid. Its RomM server answers 422 to query-string parameters and 201 to a JSON body.
\<close>

definition demo_http :: "http_request list \<Rightarrow> http_request \<Rightarrow> http_result" where
  "demo_http history req =
     (case req of
        PostParams path kvs \<Rightarrow> Returned \<lparr>status_code = 422, body = None\<rparr>
      | PostJson path j \<Rightarrow> Returned \<lparr>status_code = 201, body = Some (JObj [(''id'', JNum 7)])\<rparr>
      | GetReq path kvs \<Rightarrow> Returned \<lparr>status_code = 200, body = Some (JArr [])\<rparr>
      | PutReq path \<Rightarrow> Returned \<lparr>status_code = 204, body = None\<rparr>)"

definition demo_py_str :: "json \<Rightarrow> string" where
  "demo_py_str j = (case j of JStr s \<Rightarrow> s | JNum n \<Rightarrow> (if n = 7 then ''7'' else ''0'') | _ \<Rightarrow> ''None'')"

definition demo_env :: env where
  "demo_env =
     \<lparr>http = demo_http,
      client_create_user = (\<lambda>history call. Inr (JStr ''vendor-id'')),
      commit_raises = (\<lambda>d. False),
      is_invite_valid = (\<lambda>d code. (True, ''okay'')),
      handle_oauth_token = (\<lambda>token code w. w),
      py_int = (\<lambda>s. if s = ''2'' then Some 2 else if s = ''30'' then Some 30 else None),
      sql_int = (\<lambda>s. if s = ''2'' then Some 2 else if s = ''30'' then Some 30 else None),
      py_str = demo_py_str,
      utcnow = 1000,
      plus_days = (\<lambda>t n. Some (t + n)),
      generated_password = ''Zx9Qw3Er7Ty1Ui5O''\<rparr>"

definition demo_form :: password_form where
  "demo_form = \<lparr>f_password = Some ''password123'', f_confirm = Some ''password123'', f_generate = None\<rparr>"

text \<open>The same deployment after the Jellyfin account was provisioned and marked in the ledger.\<close>

definition demo_jellyfin_user :: user where
  "demo_jellyfin_user =
     \<lparr>u_id = 2, u_token = JStr ''vendor-id'', u_username = ''plexbob'', u_email = Some ''bob@x.com'',
      u_code = ''ABC123'', u_expires = None, u_password = None, u_server_id = Some 2\<rparr>"

definition demo_world_marked :: world where
  "demo_world_marked =
     demo_world\<lparr>committed := demo_db\<lparr>users := [demo_plex_user, demo_jellyfin_user],
                                      ledger := [(1, Some 2)]\<rparr>,
                session := demo_db\<lparr>users := [demo_plex_user, demo_jellyfin_user],
                                    ledger := [(1, Some 2)]\<rparr>\<rparr>"

text \<open>
  A second deployment: the invitation is attached to a Jellyfin, an Emby and a RomM server
  (ids 2, 3, 4), and the Emby server refuses every \<^verbatim>\<open>create_user\<close>.
\<close>

definition demo3_invitation :: invitation where
  "demo3_invitation = demo_invitation\<lparr>inv_server_id := Some 2, inv_servers := [2, 3, 4]\<rparr>"

definition demo3_db :: db where
  "demo3_db =
     \<lparr>users = [], invitations = [demo3_invitation],
      media_servers = [demo_server 2 ''jellyfin'', demo_server 3 ''emby'', demo_server 4 ''romm''],
      libraries = [], app_settings = [], ledger = []\<rparr>"

definition demo3_world :: world where
  "demo3_world = demo_world\<lparr>committed := demo3_db, session := demo3_db\<rparr>"

definition demo3_env :: env where
  "demo3_env =
     demo_env\<lparr>client_create_user :=
                (\<lambda>history call. if ms_id (vc_server call) = 3 then Inl TransportError
                                 else Inr (JStr ''vendor-id''))\<rparr>"


text \<open>The first environment with a database that refuses every commit.\<close>

definition demo_env_commit_fails :: env where
  "demo_env_commit_fails = demo_env\<lparr>commit_raises := (\<lambda>d. True)\<rparr>"






text \<open>
  The first environment with a database that accepts the commit of a new row and refuses
  the commit that writes a ledger entry.
\<close>

definition demo_env_mark_fails :: env where
  "demo_env_mark_fails = demo_env\<lparr>commit_raises := (\<lambda>d. ledger d \<noteq> [])\<rparr>"








section \<open>Validation order of \<^verbatim>\<open>connect\<close>\<close>

lemma reason_login_error:
  "settings_get settings ''plex_name'' = Inr n \<Longrightarrow> reason_of (login_error settings code msg) = Some msg"
  by (simp add: reason_of_def login_error_def)

lemma not_accepted_login_error: "\<not> accepted (login_error settings code msg)"
  by (simp add: accepted_def login_error_def split: sum.splits)

lemma login_error_raises:
  "settings_get settings ''plex_name'' = Inl x \<Longrightarrow>
     login_error settings code msg = Inl DoesNotExist \<and> reason_of (login_error settings code msg) = None"
  by (auto simp: login_error_def settings_get_def reason_of_def split: option.splits)

text \<open>
  Claim C7, as the code has it. \<^const>\<open>connect\<close> checks that the code exists, then that it is
  not a used single-use code, then that it has not expired, and stops at the first check
  that fails: it then answers with \<^const>\<open>login_error\<close> for \<^const>\<open>NOT_FOUND\<close>, \<^const>\<open>ALREADY_USED\<close> or
  \<^const>\<open>EXPIRED\<close>, in that order of precedence, and a code that passes the three checks is
  handed to the OAuth flow. So an expired code is never accepted, and it is answered with
  \<^const>\<open>EXPIRED\<close> exactly when it is not a used single-use code, with \<^const>\<open>ALREADY_USED\<close>
  otherwise. The answer to a failed check is the login page with that reason when the
  \<^verbatim>\<open>plex_name\<close> setting exists; when it does not, reading the setting raises \<^verbatim>\<open>DoesNotExist\<close> and
  no reason is given.
\<close>

theorem connect_check_order:
  "(\<not> code_exists tbl code \<longrightarrow>
      connect tbl settings now code = login_error settings code NOT_FOUND)
   \<and> (code_exists tbl code \<and> code_used_up tbl code \<longrightarrow>
        connect tbl settings now code = login_error settings code ALREADY_USED)
   \<and> (code_exists tbl code \<and> \<not> code_used_up tbl code \<and> code_expired tbl now code \<longrightarrow>
        connect tbl settings now code = login_error settings code EXPIRED)
   \<and> (code_exists tbl code \<and> \<not> code_used_up tbl code \<and> \<not> code_expired tbl now code \<longrightarrow>
        connect tbl settings now code = Inr (StartOAuth code))
   \<and> (code_expired tbl now code \<longrightarrow>
        \<not> accepted (connect tbl settings now code)
      \<and> connect tbl settings now code
          = login_error settings code (if code_used_up tbl code then ALREADY_USED else EXPIRED))
   \<and> (settings_get settings ''plex_name'' = Inr n \<longrightarrow>
        login_error settings code msg
          = Inr (RenderTemplate ''user-plex-login.html''
                   [(''name'', Some n), (''code'', code), (''code_error'', Some msg)])
      \<and> reason_of (login_error settings code msg) = Some msg)
   \<and> (settings_get settings ''plex_name'' = Inl DoesNotExist \<longrightarrow>
        login_error settings code msg = Inl DoesNotExist
      \<and> reason_of (login_error settings code msg) = None)
   \<and> (settings_get settings ''plex_name'' = Inl DoesNotExist
      \<or> (\<exists>v. settings_get settings ''plex_name'' = Inr v))"
proof -
  have expired_exists: "code_expired tbl now code \<Longrightarrow> code_exists tbl code"
    by (auto simp: code_expired_def code_exists_def list_ex_iff)
  have order: "(\<not> code_exists tbl code \<longrightarrow>
      connect tbl settings now code = login_error settings code NOT_FOUND)
   \<and> (code_exists tbl code \<and> code_used_up tbl code \<longrightarrow>
        connect tbl settings now code = login_error settings code ALREADY_USED)
   \<and> (code_exists tbl code \<and> \<not> code_used_up tbl code \<and> code_expired tbl now code \<longrightarrow>
        connect tbl settings now code = login_error settings code EXPIRED)
   \<and> (code_exists tbl code \<and> \<not> code_used_up tbl code \<and> \<not> code_expired tbl now code \<longrightarrow>
        connect tbl settings now code = Inr (StartOAuth code))"
    by (simp add: connect_def)
  have expired: "code_expired tbl now code \<longrightarrow>
        \<not> accepted (connect tbl settings now code)
      \<and> connect tbl settings now code
          = login_error settings code (if code_used_up tbl code then ALREADY_USED else EXPIRED)"
    using expired_exists by (simp add: connect_def not_accepted_login_error)
  have page: "settings_get settings ''plex_name'' = Inr n \<longrightarrow>
        login_error settings code msg
          = Inr (RenderTemplate ''user-plex-login.html''
                   [(''name'', Some n), (''code'', code), (''code_error'', Some msg)])
      \<and> reason_of (login_error settings code msg) = Some msg"
    by (simp add: login_error_def reason_of_def)
  have raise: "settings_get settings ''plex_name'' = Inl DoesNotExist \<longrightarrow>
        login_error settings code msg = Inl DoesNotExist
      \<and> reason_of (login_error settings code msg) = None"
    using login_error_raises [of settings DoesNotExist code msg] by blast
  have either: "settings_get settings ''plex_name'' = Inl DoesNotExist
      \<or> (\<exists>v. settings_get settings ''plex_name'' = Inr v)"
    by (simp add: settings_get_def split: option.splits)
  show ?thesis
    using order expired page raise either by blast
qed

theorem connect_check_order_witness:
  "code_exists [\<lparr>row_code = ''ABC123'', row_used = False, row_unlimited = Some False,
                    row_expires = Some 5\<rparr>] (Some ''ABC123'')
   \<and> \<not> code_used_up [\<lparr>row_code = ''ABC123'', row_used = False, row_unlimited = Some False,
                    row_expires = Some 5\<rparr>] (Some ''ABC123'')
   \<and> code_expired [\<lparr>row_code = ''ABC123'', row_used = False, row_unlimited = Some False,
                    row_expires = Some 5\<rparr>] 10 (Some ''ABC123'')
   \<and> settings_get [(''plex_name'', ''Wizarr'')] ''plex_name'' = Inr ''Wizarr''
   \<and> connect [\<lparr>row_code = ''ABC123'', row_used = False, row_unlimited = Some False,
                    row_expires = Some 5\<rparr>] [(''plex_name'', ''Wizarr'')] 10 (Some ''ABC123'')
       = Inr (RenderTemplate ''user-plex-login.html''
                [(''name'', Some ''Wizarr''), (''code'', Some ''ABC123''), (''code_error'', Some EXPIRED)])
   \<and> reason_of (connect [\<lparr>row_code = ''ABC123'', row_used = False, row_unlimited = Some False,
                    row_expires = Some 5\<rparr>] [(''plex_name'', ''Wizarr'')] 10 (Some ''ABC123''))
       = Some EXPIRED
   \<and> \<not> accepted (connect [\<lparr>row_code = ''ABC123'', row_used = False, row_unlimited = Some False,
                    row_expires = Some 5\<rparr>] [(''plex_name'', ''Wizarr'')] 10 (Some ''ABC123''))"
proof -
  have x: "code_exists [\<lparr>row_code = ''ABC123'', row_used = False, row_unlimited = Some False,
                    row_expires = Some 5\<rparr>] (Some ''ABC123'')"
    by (simp add: code_exists_def)
  have s: "settings_get [(''plex_name'', ''Wizarr'')] ''plex_name'' = Inr ''Wizarr''"
    by (simp add: settings_get_def)
  have e: "code_expired [\<lparr>row_code = ''ABC123'', row_used = False, row_unlimited = Some False,
                    row_expires = Some 5\<rparr>] 10 (Some ''ABC123'')"
    by (simp add: code_expired_def)
  have u: "\<not> code_used_up [\<lparr>row_code = ''ABC123'', row_used = False, row_unlimited = Some False,
                    row_expires = Some 5\<rparr>] (Some ''ABC123'')"
    by (simp add: code_used_up_def)
  from connect_check_order [of "[\<lparr>row_code = ''ABC123'', row_used = False,
      row_unlimited = Some False, row_expires = Some 5\<rparr>]" "Some ''ABC123''"
      "[(''plex_name'', ''Wizarr'')]" 10 "''Wizarr''" EXPIRED] x s e u
  show ?thesis by (simp add: reason_of_def accepted_def)
qed

text \<open>
  Claim C7 as stated fails: a single-use invitation that is both used and expired is
  reported as already used, not as expired.
\<close>

theorem connect_expired_used_counterexample:
  "code_expired [\<lparr>row_code = ''ABC123'', row_used = True, row_unlimited = Some False,
                  row_expires = Some 5\<rparr>] 10 (Some ''ABC123'')
   \<and> reason_of (connect [\<lparr>row_code = ''ABC123'', row_used = True, row_unlimited = Some False,
                  row_expires = Some 5\<rparr>] [(''plex_name'', ''Wizarr'')] 10 (Some ''ABC123''))
       = Some ALREADY_USED
   \<and> ALREADY_USED \<noteq> EXPIRED"
  by (simp add: connect_def code_exists_def code_used_up_def code_expired_def login_error_def
      settings_get_def reason_of_def ALREADY_USED_def EXPIRED_def)

section \<open>Case of the invitation code\<close>

lemma lower_char_same:
  assumes "same_char_modulo_case a b"
  shows "lower_char a = lower_char b"
proof -
  let ?m = "of_char a :: nat" and ?n = "of_char b :: nat"
  from assms consider "a = b" | "65 \<le> ?m \<and> ?m \<le> 90 \<and> ?n = ?m + 32"
    | "65 \<le> ?n \<and> ?n \<le> 90 \<and> ?m = ?n + 32"
    unfolding same_char_modulo_case_def Let_def by blast
  then show ?thesis
  proof cases
    case 1
    then show ?thesis by simp
  next
    case 2
    then have "?m + 32 = ?n" by simp
    then have "char_of (?m + 32) = b" by (simp only: char_of_char)
    then have "lower_char a = b" using 2 by (simp add: lower_char_def)
    moreover have "lower_char b = b" using 2 by (simp add: lower_char_def)
    ultimately show ?thesis by simp
  next
    case 3
    then have "?n + 32 = ?m" by simp
    then have "char_of (?n + 32) = a" by (simp only: char_of_char)
    then have "lower_char b = a" using 3 by (simp add: lower_char_def)
    moreover have "lower_char a = a" using 3 by (simp add: lower_char_def)
    ultimately show ?thesis by simp
  qed
qed

lemma lower_same: "differs_only_in_case s t \<Longrightarrow> lower s = lower t"
  unfolding differs_only_in_case_def lower_def
  by (induction s t rule: list_all2_induct) (auto dest: lower_char_same)

lemma find_unique_key:
  "distinct (map f xs) \<Longrightarrow> x \<in> set xs \<Longrightarrow> f x = k \<Longrightarrow> find (\<lambda>y. f y = k) xs = Some x"
  by (induction xs) (auto simp: image_iff)

text \<open>
  Claim C9, as the code has it. The query that \<^const>\<open>invite\<close>, \<^const>\<open>join\<close> and
  \<^const>\<open>password_prompt\<close> of \<^verbatim>\<open>routes.py\<close> start with compares lower-cased codes: when the
  stored codes are unique up to case, an ASCII code that differs from a stored invitation's
  code only in letter case resolves to that invitation, as the stored code itself does. The
  legacy \<^const>\<open>connect\<close> of \<^verbatim>\<open>web.py\<close> finds a code exactly when a row stores that very text.
\<close>

theorem lookup_invitation_case_insensitive:
  assumes "distinct (map (\<lambda>i. lower (inv_code i)) (invitations d))"
    and "i \<in> set (invitations d)"
    and "is_ascii given"
    and "differs_only_in_case given (inv_code i)"
  shows "lookup_invitation d given = Some i
       \<and> lookup_invitation d (inv_code i) = Some i
       \<and> (code_exists tbl (Some given) \<longleftrightarrow> given \<in> row_code ` set tbl)"
proof -
  have "lower (inv_code i) = lower given"
    using assms(4) by (simp add: lower_same)
  then have "lookup_invitation d given = Some i"
    unfolding lookup_invitation_def using assms(1,2) by (rule_tac find_unique_key) auto
  moreover have "lookup_invitation d (inv_code i) = Some i"
    unfolding lookup_invitation_def using assms(1,2) by (rule_tac find_unique_key) auto
  moreover have "code_exists tbl (Some given) \<longleftrightarrow> given \<in> row_code ` set tbl"
    by (auto simp: code_exists_def list_ex_iff)
  ultimately show ?thesis by simp
qed

theorem lookup_invitation_case_insensitive_witness:
  "distinct (map (\<lambda>i. lower (inv_code i)) (invitations demo_db))
   \<and> demo_invitation \<in> set (invitations demo_db)
   \<and> is_ascii ''abc123''
   \<and> differs_only_in_case ''abc123'' (inv_code demo_invitation)
   \<and> lookup_invitation demo_db ''abc123'' = Some demo_invitation"
proof -
  have a: "distinct (map (\<lambda>i. lower (inv_code i)) (invitations demo_db))"
    by (simp add: demo_db_def)
  have b: "demo_invitation \<in> set (invitations demo_db)"
    by (simp add: demo_db_def)
  have c: "is_ascii ''abc123''"
    by (simp add: is_ascii_def)
  have d: "differs_only_in_case ''abc123'' (inv_code demo_invitation)"
    by (simp add: demo_invitation_def differs_only_in_case_def same_char_modulo_case_def)
  from lookup_invitation_case_insensitive [OF a b c d] a b c d
  show ?thesis by simp
qed

text \<open>
  Claim C9 as stated fails at \<^const>\<open>connect\<close>: the stored code \<open>ABC123\<close> is accepted, and the
  same code in lower case is reported as not existing.
\<close>

theorem connect_exact_match_counterexample:
  "differs_only_in_case ''abc123'' ''ABC123''
   \<and> is_ascii ''abc123''
   \<and> accepted (connect [\<lparr>row_code = ''ABC123'', row_used = False, row_unlimited = Some False,
                  row_expires = None\<rparr>] [(''plex_name'', ''Wizarr'')] 10 (Some ''ABC123''))
   \<and> reason_of (connect [\<lparr>row_code = ''ABC123'', row_used = False, row_unlimited = Some False,
                  row_expires = None\<rparr>] [(''plex_name'', ''Wizarr'')] 10 (Some ''abc123''))
       = Some NOT_FOUND"
  by (simp add: differs_only_in_case_def same_char_modulo_case_def is_ascii_def
      connect_def code_exists_def code_used_up_def code_expired_def login_error_def
      settings_get_def reason_of_def accepted_def)

section \<open>The fallback of \<^verbatim>\<open>RommClient.create_user\<close>\<close>

lemma romm_attempt_eq:
  "romm_attempt e req w = (response_of (http e (http_log w) req), w\<lparr>http_log := http_log w @ [req]\<rparr>)"
  by (simp add: romm_attempt_def send_def)



section \<open>What \<^verbatim>\<open>delete_server\<close> deletes\<close>




section \<open>The provisioning loop of the password prompt\<close>

lemma username_for_eq: "username_for plex_user = Inr (expected_username plex_user)"
  by (cases plex_user) (simp_all add: username_for_def expected_username_def)

lemma try_provision_calls:
  "vendor_calls (snd (try_provision e i code un em pw srv w))
     = vendor_calls w @ (case create_user_call srv un pw em of None \<Rightarrow> [] | Some c \<Rightarrow> [c])"
  by (simp add: try_provision_def Let_def db_commit_def mark_server_used_def
      split: option.splits sum.splits)

lemma create_user_call_plex: "ms_server_type srv = ''plex'' \<Longrightarrow> create_user_call srv un pw em = None"
  by (simp add: create_user_call_def)

lemma create_user_call_username: "create_user_call srv un pw em = Some c \<Longrightarrow> vc_username c = un"
  by (auto simp: create_user_call_def split: if_splits)

lemma calls_username:
  "c \<in> set (List.map_filter (\<lambda>srv. create_user_call srv un pw em) servers) \<Longrightarrow> vc_username c = un"
  by (induction servers)
    (auto simp: List.map_filter_simps split: option.splits dest: create_user_call_username)

lemma create_user_call_server: "create_user_call srv un pw em = Some c \<Longrightarrow> vc_server c = srv"
  by (auto simp: create_user_call_def split: if_splits)

lemma create_user_call_None:
  "create_user_call srv un pw em = None \<longleftrightarrow> ms_server_type srv \<notin> set password_signup_types"
  by (auto simp: create_user_call_def password_signup_types_def)

lemma provision_server_fst: "fst (provision_server e i code pu pw srv w) = Inr ()"
  by (simp add: provision_server_def username_for_eq split: prod.splits sum.splits)

lemma provision_server_calls:
  "vendor_calls (snd (provision_server e i code pu pw srv w))
     = vendor_calls w @ (case create_user_call srv (expected_username pu) pw (email_for pu) of
                           None \<Rightarrow> [] | Some c \<Rightarrow> [c])"
proof (cases "ms_server_type srv = ''plex''")
  case True
  then show ?thesis by (simp add: provision_server_def create_user_call_plex)
next
  case False
  obtain r w' where t: "try_provision e i code (expected_username pu) (email_for pu) pw srv w = (r, w')"
    by (cases "try_provision e i code (expected_username pu) (email_for pu) pw srv w")
  have "vendor_calls w' = vendor_calls w @ (case create_user_call srv (expected_username pu) pw (email_for pu) of
                           None \<Rightarrow> [] | Some c \<Rightarrow> [c])"
    using try_provision_calls [of e i code "expected_username pu" "email_for pu" pw srv w] t by simp
  then show ?thesis
    using False t by (cases r) (simp_all add: provision_server_def username_for_eq db_rollback_def)
qed

lemma provision_server_skip:
  assumes "ms_server_type srv \<notin> set password_signup_types"
  shows "provision_server e i code pu pw srv w = (Inr (), w)"
proof -
  have "create_user_call srv (expected_username pu) pw (email_for pu) = None"
    using assms by (simp add: create_user_call_None)
  then show ?thesis
    by (simp add: provision_server_def username_for_eq try_provision_def)
qed

lemma provision_server_failure:
  assumes "create_user_call srv (expected_username pu) pw (email_for pu) = Some call"
    and "provision_fails e code pu srv call w"
  shows "provision_server e i code pu pw srv w
     = (Inr (), w\<lparr>session := committed w, vendor_calls := vendor_calls w @ [call],
                  error_log := error_log w @ [provision_failure_message srv]\<rparr>)"
proof -
  have "ms_server_type srv \<noteq> ''plex''"
    using assms(1) by (auto simp: create_user_call_plex)
  then show ?thesis
    using assms
    by (auto simp: provision_server_def username_for_eq try_provision_def Let_def
        provision_fails_def db_commit_def db_rollback_def split: sum.splits)
qed

lemma provision_server_success:
  assumes "create_user_call srv (expected_username pu) pw (email_for pu) = Some call"
    and "client_create_user e (vendor_calls w) call = Inr uid"
    and "\<not> commit_raises e (add_user (provisioned_user (session w) uid (expected_username pu)
                                       (email_for pu) code srv) (session w))"
    and "\<not> commit_raises e (provisioned_db (session w) i uid (expected_username pu) (email_for pu) code srv)"
  shows "provision_server e i code pu pw srv w
     = (Inr (), w\<lparr>committed := provisioned_db (session w) i uid (expected_username pu) (email_for pu) code srv,
                  session := provisioned_db (session w) i uid (expected_username pu) (email_for pu) code srv,
                  vendor_calls := vendor_calls w @ [call]\<rparr>)"
proof -
  have "ms_server_type srv \<noteq> ''plex''"
    using assms(1) by (auto simp: create_user_call_plex)
  then show ?thesis
    using assms
    by (simp add: provision_server_def username_for_eq try_provision_def Let_def
        db_commit_def mark_server_used_def provisioned_db_def)
qed

lemma provision_loop_fst: "fst (provision_loop e i code pu pw servers w) = Inr ()"
proof (induction servers arbitrary: w)
  case Nil
  then show ?case by simp
next
  case (Cons srv rest)
  obtain r w' where s: "provision_server e i code pu pw srv w = (r, w')"
    by (cases "provision_server e i code pu pw srv w")
  with provision_server_fst [of e i code pu pw srv w] have "r = Inr ()" by simp
  with s Cons show ?case by simp
qed

lemma provision_loop_step:
  "provision_loop e i code pu pw (srv # rest) w
     = provision_loop e i code pu pw rest (snd (provision_server e i code pu pw srv w))"
proof -
  obtain r w' where s: "provision_server e i code pu pw srv w = (r, w')"
    by (cases "provision_server e i code pu pw srv w")
  with provision_server_fst [of e i code pu pw srv w] have "r = Inr ()" by simp
  with s show ?thesis by simp
qed

lemma provision_loop_append:
  "snd (provision_loop e i code pu pw (pre @ post) w)
     = snd (provision_loop e i code pu pw post (snd (provision_loop e i code pu pw pre w)))"
  by (induction pre arbitrary: w) (simp_all add: provision_loop_step del: provision_loop.simps(2))

lemma provision_loop_calls:
  "vendor_calls (snd (provision_loop e i code pu pw servers w))
     = vendor_calls w @ List.map_filter (\<lambda>srv. create_user_call srv (expected_username pu) pw (email_for pu)) servers"
proof (induction servers arbitrary: w)
  case Nil
  then show ?case by (simp add: List.map_filter_simps)
next
  case (Cons srv rest)
  show ?case
    unfolding provision_loop_step Cons.IH provision_server_calls
    by (simp add: List.map_filter_simps split: option.splits)
qed

lemma provision_loop_case:
  "(case provision_loop e i code pu pw servers w of (Inl x, w') \<Rightarrow> f x w' | (Inr u, w') \<Rightarrow> g w')
     = g (snd (provision_loop e i code pu pw servers w))"
proof -
  obtain r w' where run: "provision_loop e i code pu pw servers w = (r, w')"
    by (cases "provision_loop e i code pu pw servers w")
  with provision_loop_fst [of e i code pu pw servers w] have "r = Inr ()" by simp
  with run show ?thesis by simp
qed

lemma password_prompt_post:
  assumes "lookup_invitation (session w) code = Some invitation" and "form_accepted frm"
  shows "password_prompt e code POST frm w =
     (Inr (Redirect ''wizard.start''),
      (snd (provision_loop e invitation code
              (plex_user_of (session w) code (invitation_servers (session w) invitation))
              (chosen_password e frm) (invitation_servers (session w) invitation) w))
        \<lparr>flask_session := (''wizard_access'', Some code)
            # flask_session (snd (provision_loop e invitation code
                (plex_user_of (session w) code (invitation_servers (session w) invitation))
                (chosen_password e frm) (invitation_servers (session w) invitation) w))\<rparr>)"
  using assms
  by (auto simp: password_prompt_def Let_def form_accepted_def chosen_password_def
      provision_loop_case)

lemma password_prompt_other:
  assumes "lookup_invitation (session w) code = Some invitation"
    and "method \<noteq> POST \<or> \<not> form_accepted frm"
  shows "snd (password_prompt e code method frm w) = w"
  using assms by (auto simp: password_prompt_def Let_def form_accepted_def)

subsection \<open>The first deployment, evaluated\<close>

lemma demo_lookup: "lookup_invitation (session demo_world) ''ABC123'' = Some demo_invitation"
  by (simp add: lookup_invitation_def demo_world_def demo_db_def demo_invitation_def)

lemma demo_servers:
  "invitation_servers (session demo_world) demo_invitation = [demo_server 1 ''plex'', demo_server 2 ''jellyfin'']"
  by (simp add: invitation_servers_def demo_world_def demo_db_def demo_invitation_def demo_server_def)

lemma demo_plex_user_found:
  "plex_user_of (session demo_world) ''ABC123'' [demo_server 1 ''plex'', demo_server 2 ''jellyfin'']
     = Some demo_plex_user"
  by (simp add: plex_user_of_def demo_world_def demo_db_def demo_server_def demo_plex_user_def)

lemma demo_form_accepted: "form_accepted demo_form"
  by (simp add: form_accepted_def demo_form_def or_empty_def)

lemma demo_calls:
  "vendor_calls (snd (password_prompt demo_env ''ABC123'' POST demo_form demo_world))
     = [\<lparr>vc_server = demo_server 2 ''jellyfin'', vc_username = ''plexbob'',
         vc_password = ''password123'', vc_email = NoEmail\<rparr>]"
  by (simp add: password_prompt_post [OF demo_lookup demo_form_accepted] provision_loop_calls
      demo_servers demo_plex_user_found List.map_filter_simps create_user_call_def
      expected_username_def chosen_password_def del: provision_loop.simps)
     (simp add: demo_server_def demo_plex_user_def demo_form_def or_empty_def is_space_def
      demo_world_def)

lemma lower_demo_code: "lower ''ABC123'' = ''abc123''" "lower ''abc123'' = ''abc123''"
proof -
  have "char_of (of_char CHR ''a'' :: nat) = CHR ''a''" "char_of (of_char CHR ''b'' :: nat) = CHR ''b''"
    "char_of (of_char CHR ''c'' :: nat) = CHR ''c''"
    by (rule char_of_char)+
  then have c: "char_of (97 :: nat) = CHR ''a''" "char_of (98 :: nat) = CHR ''b''"
    "char_of (99 :: nat) = CHR ''c''"
    by simp_all
  show "lower ''ABC123'' = ''abc123''" "lower ''abc123'' = ''abc123''"
    by (simp_all add: lower_def lower_char_def c)
qed

lemma demo_lookup_lower: "lookup_invitation (session demo_world) ''abc123'' = Some demo_invitation"
  by (simp add: lookup_invitation_def lower_demo_code demo_world_def demo_db_def
      demo_invitation_def)

lemma demo_plex_user_missing:
  "plex_user_of (session demo_world) ''abc123'' [demo_server 1 ''plex'', demo_server 2 ''jellyfin'']
     = None"
  by (simp add: plex_user_of_def demo_world_def demo_db_def demo_server_def demo_plex_user_def)

lemma demo_calls_lower:
  "vendor_calls (snd (password_prompt demo_env ''abc123'' POST demo_form demo_world))
     = [\<lparr>vc_server = demo_server 2 ''jellyfin'', vc_username = ''wizarr'',
         vc_password = ''password123'', vc_email = NoEmail\<rparr>]"
  by (simp add: password_prompt_post [OF demo_lookup_lower demo_form_accepted] provision_loop_calls
      demo_servers demo_plex_user_missing List.map_filter_simps create_user_call_def
      expected_username_def chosen_password_def del: provision_loop.simps)
     (simp add: demo_server_def demo_form_def or_empty_def is_space_def
      demo_world_def)

subsection \<open>The user name\<close>

text \<open>
  Claim C6, as the code has it. Let the code of the request find an invitation. Every
  \<^verbatim>\<open>create_user\<close> call that the password prompt then makes uses the stored user name of the
  row \<^const>\<open>plex_user_of\<close> finds: the first \<^verbatim>\<open>User\<close> row whose code is the code of the request, as
  it was typed and compared exactly, and whose server is the first Plex server attached to
  the invitation. It uses the literal \<open>wizarr\<close> when the invitation has no Plex server or
  there is no such row. The invitation is looked up without regard to case and the row with
  regard to it, so a request that types \<open>abc123\<close> for the invitation \<open>ABC123\<close> finds the
  invitation and not the row.
\<close>

theorem password_prompt_username:
  assumes "lookup_invitation (session w) code = Some invitation"
  shows "\<forall>c \<in> set (drop (length (vendor_calls w))
                     (vendor_calls (snd (password_prompt e code method frm w)))).
           vc_username c
             = (case plex_user_of (session w) code (invitation_servers (session w) invitation) of
                  Some u \<Rightarrow> u_username u
                | None \<Rightarrow> ''wizarr'')"
proof (cases "method = POST \<and> form_accepted frm")
  case True
  let ?pu = "plex_user_of (session w) code (invitation_servers (session w) invitation)"
  have "drop (length (vendor_calls w)) (vendor_calls (snd (password_prompt e code method frm w)))
          = List.map_filter (\<lambda>srv. create_user_call srv (expected_username ?pu) (chosen_password e frm)
                                   (email_for ?pu)) (invitation_servers (session w) invitation)"
    using True assms by (simp add: password_prompt_post provision_loop_calls)
  then have "\<forall>c \<in> set (drop (length (vendor_calls w))
                     (vendor_calls (snd (password_prompt e code method frm w)))).
               vc_username c = expected_username ?pu"
    by (simp add: calls_username)
  then show ?thesis by (simp add: expected_username_def)
next
  case False
  then have "snd (password_prompt e code method frm w) = w"
    using assms password_prompt_other by blast
  then show ?thesis by simp
qed

theorem password_prompt_username_witness:
  "lookup_invitation (session demo_world) ''ABC123'' = Some demo_invitation
   \<and> plex_user_of (session demo_world) ''ABC123'' (invitation_servers (session demo_world) demo_invitation)
       = Some demo_plex_user
   \<and> u_username demo_plex_user = ''plexbob''
   \<and> map vc_username (vendor_calls (snd (password_prompt demo_env ''ABC123'' POST demo_form demo_world)))
       = [''plexbob'']
   \<and> lookup_invitation (session demo_world) ''abc123'' = Some demo_invitation
   \<and> plex_user_of (session demo_world) ''abc123'' (invitation_servers (session demo_world) demo_invitation)
       = None
   \<and> map vc_username (vendor_calls (snd (password_prompt demo_env ''abc123'' POST demo_form demo_world)))
       = [''wizarr'']"
proof -
  have v: "vendor_calls demo_world = []" by (simp add: demo_world_def)
  have u: "u_username demo_plex_user = ''plexbob''" by (simp add: demo_plex_user_def)
  have first: "map vc_username (vendor_calls (snd (password_prompt demo_env ''ABC123'' POST demo_form demo_world)))
       = [''plexbob'']"
    using password_prompt_username [OF demo_lookup, of demo_env POST demo_form]
      demo_servers demo_plex_user_found demo_calls v u
    by simp
  have second: "map vc_username (vendor_calls (snd (password_prompt demo_env ''abc123'' POST demo_form demo_world)))
       = [''wizarr'']"
    using password_prompt_username [OF demo_lookup_lower, of demo_env POST demo_form]
      demo_servers demo_plex_user_missing demo_calls_lower v
    by simp
  show ?thesis
    using demo_lookup demo_servers demo_plex_user_found u first demo_lookup_lower
      demo_plex_user_missing second
    by simp
qed

text \<open>
  Claim C6 as stated fails: the Plex account has the e-mail \<open>bob@x.com\<close>, whose local part is
  \<open>bob\<close>, and the Jellyfin account is created under the stored user name \<open>plexbob\<close>.
\<close>

theorem password_prompt_username_counterexample:
  "plex_user_of (session demo_world) ''ABC123'' (invitation_servers (session demo_world) demo_invitation)
     = Some demo_plex_user
   \<and> u_email demo_plex_user = Some ''bob@x.com''
   \<and> takeWhile (\<lambda>c. c \<noteq> CHR ''@'') ''bob@x.com'' = ''bob''
   \<and> map vc_username (vendor_calls (snd (password_prompt demo_env ''ABC123'' POST demo_form demo_world)))
       = [''plexbob'']
   \<and> ''plexbob'' \<noteq> ''bob''"
  using demo_servers demo_plex_user_found demo_calls
  by (simp add: demo_plex_user_def)

subsection \<open>The ledger is not consulted\<close>

lemma provisioned_db_users:
  "users (provisioned_db d i uid un em code srv) = users d @ [provisioned_user d uid un em code srv]"
  by (simp add: provisioned_db_def Let_def set_used_by_if_unset_def add_user_def)

lemma provisioned_db_ledger:
  "ledger (provisioned_db d i uid un em code srv) = ledger d @ [(inv_id i, Some (ms_id srv))]"
  by (simp add: provisioned_db_def Let_def set_used_by_if_unset_def add_user_def)

text \<open>
  Claim C1, as the code has it. One round of the loop skips a server only by its type: for
  a Plex server or a server of a type it does not know it makes no vendor call and leaves
  the state as it was. For a Jellyfin, Emby, Audiobookshelf or RomM server it makes exactly
  one \<^verbatim>\<open>create_user\<close> call in every state, so also when a \<^verbatim>\<open>User\<close> row with the invitation's
  code and the server's id exists already; and when the call and the commits succeed, one
  more \<^verbatim>\<open>User\<close> row and one more ledger entry for that server are committed.
\<close>

theorem provisioning_ignores_ledger:
  "(ms_server_type srv \<notin> set password_signup_types \<longrightarrow>
        provision_server e i code pu pw srv w = (Inr (), w))
   \<and> (ms_server_type srv \<in> set password_signup_types \<longrightarrow>
        (\<exists>call. create_user_call srv (expected_username pu) pw (email_for pu) = Some call
               \<and> vc_server call = srv
               \<and> vendor_calls (snd (provision_server e i code pu pw srv w)) = vendor_calls w @ [call]))
   \<and> (\<forall>call uid.
          create_user_call srv (expected_username pu) pw (email_for pu) = Some call
        \<and> client_create_user e (vendor_calls w) call = Inr uid
        \<and> \<not> commit_raises e (add_user (provisioned_user (session w) uid (expected_username pu)
                                          (email_for pu) code srv) (session w))
        \<and> \<not> commit_raises e (provisioned_db (session w) i uid (expected_username pu)
                                (email_for pu) code srv) \<longrightarrow>
          users (committed (snd (provision_server e i code pu pw srv w)))
            = users (session w)
              @ [provisioned_user (session w) uid (expected_username pu) (email_for pu) code srv]
        \<and> ledger (committed (snd (provision_server e i code pu pw srv w)))
            = ledger (session w) @ [(inv_id i, Some (ms_id srv))])"
proof (intro conjI impI allI)
  assume "ms_server_type srv \<notin> set password_signup_types"
  then show "provision_server e i code pu pw srv w = (Inr (), w)"
    by (rule provision_server_skip)
next
  assume "ms_server_type srv \<in> set password_signup_types"
  then obtain call where c: "create_user_call srv (expected_username pu) pw (email_for pu) = Some call"
    using create_user_call_None [of srv "expected_username pu" pw "email_for pu"] by auto
  then have "vc_server call = srv" by (rule create_user_call_server)
  moreover have "vendor_calls (snd (provision_server e i code pu pw srv w)) = vendor_calls w @ [call]"
    using c by (simp add: provision_server_calls)
  ultimately show "\<exists>call. create_user_call srv (expected_username pu) pw (email_for pu) = Some call
               \<and> vc_server call = srv
               \<and> vendor_calls (snd (provision_server e i code pu pw srv w)) = vendor_calls w @ [call]"
    using c by blast
next
  fix call uid
  assume a: "create_user_call srv (expected_username pu) pw (email_for pu) = Some call
        \<and> client_create_user e (vendor_calls w) call = Inr uid
        \<and> \<not> commit_raises e (add_user (provisioned_user (session w) uid (expected_username pu)
                                          (email_for pu) code srv) (session w))
        \<and> \<not> commit_raises e (provisioned_db (session w) i uid (expected_username pu)
                                (email_for pu) code srv)"
  then have s: "provision_server e i code pu pw srv w
     = (Inr (), w\<lparr>committed := provisioned_db (session w) i uid (expected_username pu) (email_for pu) code srv,
                  session := provisioned_db (session w) i uid (expected_username pu) (email_for pu) code srv,
                  vendor_calls := vendor_calls w @ [call]\<rparr>)"
    by (intro provision_server_success) simp_all
  show "users (committed (snd (provision_server e i code pu pw srv w)))
            = users (session w)
              @ [provisioned_user (session w) uid (expected_username pu) (email_for pu) code srv]"
    by (simp add: s provisioned_db_users)
  show "ledger (committed (snd (provision_server e i code pu pw srv w)))
            = ledger (session w) @ [(inv_id i, Some (ms_id srv))]"
    by (simp add: s provisioned_db_ledger)
qed

lemma demo_marked_call:
  "create_user_call (demo_server 2 ''jellyfin'') (expected_username (Some demo_plex_user)) ''password123''
       (email_for (Some demo_plex_user))
     = Some \<lparr>vc_server = demo_server 2 ''jellyfin'', vc_username = ''plexbob'',
             vc_password = ''password123'', vc_email = NoEmail\<rparr>"
  by (simp add: create_user_call_def demo_server_def expected_username_def demo_plex_user_def)

theorem provisioning_ignores_ledger_witness:
  "ms_server_type (demo_server 2 ''jellyfin'') \<in> set password_signup_types
   \<and> list_ex (\<lambda>u. u_code u = ''ABC123'' \<and> u_server_id u = Some 2) (users (session demo_world_marked))
   \<and> length (vendor_calls (snd (provision_server demo_env demo_invitation ''ABC123''
        (Some demo_plex_user) ''password123'' (demo_server 2 ''jellyfin'') demo_world_marked))) = 1
   \<and> length (users (committed (snd (provision_server demo_env demo_invitation ''ABC123''
        (Some demo_plex_user) ''password123'' (demo_server 2 ''jellyfin'') demo_world_marked)))) = 3
   \<and> ledger (committed (snd (provision_server demo_env demo_invitation ''ABC123''
        (Some demo_plex_user) ''password123'' (demo_server 2 ''jellyfin'') demo_world_marked)))
       = [(1, Some 2), (1, Some 2)]"
proof -
  have t: "ms_server_type (demo_server 2 ''jellyfin'') \<in> set password_signup_types"
    by (simp add: demo_server_def password_signup_types_def)
  have m: "list_ex (\<lambda>u. u_code u = ''ABC123'' \<and> u_server_id u = Some 2) (users (session demo_world_marked))"
    by (simp add: demo_world_marked_def demo_world_def demo_jellyfin_user_def)
  have v: "vendor_calls demo_world_marked = []"
    by (simp add: demo_world_marked_def demo_world_def)
  have r: "client_create_user demo_env (vendor_calls demo_world_marked)
             \<lparr>vc_server = demo_server 2 ''jellyfin'', vc_username = ''plexbob'',
              vc_password = ''password123'', vc_email = NoEmail\<rparr> = Inr (JStr ''vendor-id'')"
    by (simp add: demo_env_def)
  have c: "\<And>d. \<not> commit_raises demo_env d"
    by (simp add: demo_env_def)
  have u: "users (session demo_world_marked) = [demo_plex_user, demo_jellyfin_user]"
    "ledger (session demo_world_marked) = [(1, Some 2)]"
    by (simp_all add: demo_world_marked_def demo_world_def)
  have i: "inv_id demo_invitation = 1" "ms_id (demo_server 2 ''jellyfin'') = 2"
    by (simp_all add: demo_invitation_def demo_server_def)
  from provisioning_ignores_ledger [of "demo_server 2 ''jellyfin''" demo_env demo_invitation
      "''ABC123''" "Some demo_plex_user" "''password123''" demo_world_marked]
    t m v r c u i demo_marked_call
  show ?thesis by simp
qed

text \<open>
  Claim C1 as stated fails: the Jellyfin server of the invitation is marked provisioned (a
  \<^verbatim>\<open>User\<close> row with the code and the server's id exists, and the ledger holds the pair), and
  posting the password again calls \<^verbatim>\<open>create_user\<close> for it once more and commits a third row.
\<close>

theorem provisioning_repeats_counterexample:
  "list_ex (\<lambda>u. u_code u = ''ABC123'' \<and> u_server_id u = Some 2) (users (committed demo_world_marked))
   \<and> (1, Some 2) \<in> set (ledger (committed demo_world_marked))
   \<and> vendor_calls demo_world_marked = []
   \<and> length (users (committed demo_world_marked)) = 2
   \<and> map (\<lambda>c. ms_id (vc_server c))
        (vendor_calls (snd (password_prompt demo_env ''ABC123'' POST demo_form demo_world_marked))) = [2]
   \<and> map u_server_id
        (users (committed (snd (password_prompt demo_env ''ABC123'' POST demo_form demo_world_marked))))
       = [Some 1, Some 2, Some 2]"
proof -
  have l: "lookup_invitation (session demo_world_marked) ''ABC123'' = Some demo_invitation"
    by (simp add: lookup_invitation_def demo_world_marked_def demo_world_def demo_db_def
        demo_invitation_def)
  have s: "invitation_servers (session demo_world_marked) demo_invitation
             = [demo_server 1 ''plex'', demo_server 2 ''jellyfin'']"
    by (simp add: invitation_servers_def demo_world_marked_def demo_world_def demo_db_def
        demo_invitation_def demo_server_def)
  have p: "plex_user_of (session demo_world_marked) ''ABC123''
             [demo_server 1 ''plex'', demo_server 2 ''jellyfin''] = Some demo_plex_user"
    by (simp add: plex_user_of_def demo_world_marked_def demo_world_def demo_db_def demo_server_def
        demo_plex_user_def)
  have pw: "chosen_password demo_env demo_form = ''password123''"
    by (simp add: chosen_password_def demo_form_def or_empty_def is_space_def)
  have skip: "provision_server demo_env demo_invitation ''ABC123'' (Some demo_plex_user) ''password123''
                (demo_server 1 ''plex'') demo_world_marked = (Inr (), demo_world_marked)"
    by (rule provision_server_skip) (simp add: demo_server_def password_signup_types_def)
  have v: "vendor_calls demo_world_marked = []"
    by (simp add: demo_world_marked_def demo_world_def)
  have ok: "provision_server demo_env demo_invitation ''ABC123'' (Some demo_plex_user) ''password123''
              (demo_server 2 ''jellyfin'') demo_world_marked
            = (Inr (), demo_world_marked
                \<lparr>committed := provisioned_db (session demo_world_marked) demo_invitation
                     (JStr ''vendor-id'') (expected_username (Some demo_plex_user))
                     (email_for (Some demo_plex_user)) ''ABC123'' (demo_server 2 ''jellyfin''),
                 session := provisioned_db (session demo_world_marked) demo_invitation
                     (JStr ''vendor-id'') (expected_username (Some demo_plex_user))
                     (email_for (Some demo_plex_user)) ''ABC123'' (demo_server 2 ''jellyfin''),
                 vendor_calls := vendor_calls demo_world_marked
                     @ [\<lparr>vc_server = demo_server 2 ''jellyfin'', vc_username = ''plexbob'',
                         vc_password = ''password123'', vc_email = NoEmail\<rparr>]\<rparr>)"
    by (rule provision_server_success [OF demo_marked_call]) (simp_all add: demo_env_def)
  have run: "snd (password_prompt demo_env ''ABC123'' POST demo_form demo_world_marked)
      = (snd (provision_server demo_env demo_invitation ''ABC123'' (Some demo_plex_user) ''password123''
              (demo_server 2 ''jellyfin'') demo_world_marked))
          \<lparr>flask_session := (''wizard_access'', Some ''ABC123'')
             # flask_session (snd (provision_server demo_env demo_invitation ''ABC123''
                 (Some demo_plex_user) ''password123'' (demo_server 2 ''jellyfin'') demo_world_marked))\<rparr>"
    by (simp add: password_prompt_post [OF l demo_form_accepted] s p pw provision_loop_step skip
        del: provision_loop.simps(2))
  have rows: "users (session demo_world_marked) = [demo_plex_user, demo_jellyfin_user]"
    "ledger (committed demo_world_marked) = [(1, Some 2)]"
    "users (committed demo_world_marked) = [demo_plex_user, demo_jellyfin_user]"
    by (simp_all add: demo_world_marked_def demo_world_def)
  have ids: "u_server_id demo_plex_user = Some 1" "u_server_id demo_jellyfin_user = Some 2"
    "u_code demo_jellyfin_user = ''ABC123''" "ms_id (demo_server 2 ''jellyfin'') = 2"
    by (simp_all add: demo_plex_user_def demo_jellyfin_user_def demo_server_def)
  show ?thesis
    by (simp add: run ok v rows ids provisioned_db_users provisioned_user_def)
qed

subsection \<open>A failure on one server\<close>

text \<open>
  Claim C2. The loop always completes, and it calls \<^verbatim>\<open>create_user\<close> exactly once, in
  attachment order, for every attached server of a type it provisions, whatever the
  outcomes: no server is retried and none is skipped because another failed. When the
  attempt for a server fails (its \<^verbatim>\<open>create_user\<close> raises, or the commit of its new row
  raises), the round logs the error and drops the uncommitted changes, so the database
  (users, ledger, invitations) is as before the round, and the loop goes on with the next
  server. A posted form that passes the password check always ends in the redirect to the
  wizard.
\<close>

theorem provisioning_continues_after_failure:
  "fst (provision_loop e i code pu pw servers w) = Inr ()
   \<and> vendor_calls (snd (provision_loop e i code pu pw servers w))
       = vendor_calls w
         @ List.map_filter (\<lambda>srv. create_user_call srv (expected_username pu) pw (email_for pu)) servers
   \<and> snd (provision_loop e i code pu pw (pre @ srv # post) w)
       = snd (provision_loop e i code pu pw post
                (snd (provision_server e i code pu pw srv (snd (provision_loop e i code pu pw pre w)))))
   \<and> (\<forall>call. create_user_call srv (expected_username pu) pw (email_for pu) = Some call
              \<and> provision_fails e code pu srv call w \<longrightarrow>
          provision_server e i code pu pw srv w
            = (Inr (), w\<lparr>session := committed w, vendor_calls := vendor_calls w @ [call],
                         error_log := error_log w @ [provision_failure_message srv]\<rparr>))
   \<and> (lookup_invitation (session w) code = Some i \<and> form_accepted frm \<longrightarrow>
          fst (password_prompt e code POST frm w) = Inr (Redirect ''wizard.start''))"
proof (intro conjI impI allI)
  show "fst (provision_loop e i code pu pw servers w) = Inr ()"
    by (rule provision_loop_fst)
  show "vendor_calls (snd (provision_loop e i code pu pw servers w))
       = vendor_calls w
         @ List.map_filter (\<lambda>srv. create_user_call srv (expected_username pu) pw (email_for pu)) servers"
    by (rule provision_loop_calls)
  show "snd (provision_loop e i code pu pw (pre @ srv # post) w)
       = snd (provision_loop e i code pu pw post
                (snd (provision_server e i code pu pw srv (snd (provision_loop e i code pu pw pre w)))))"
    by (simp only: provision_loop_append provision_loop_step)
next
  fix call
  assume "create_user_call srv (expected_username pu) pw (email_for pu) = Some call
              \<and> provision_fails e code pu srv call w"
  then show "provision_server e i code pu pw srv w
            = (Inr (), w\<lparr>session := committed w, vendor_calls := vendor_calls w @ [call],
                         error_log := error_log w @ [provision_failure_message srv]\<rparr>)"
    by (intro provision_server_failure) simp_all
next
  assume "lookup_invitation (session w) code = Some i \<and> form_accepted frm"
  then show "fst (password_prompt e code POST frm w) = Inr (Redirect ''wizard.start'')"
    by (simp add: password_prompt_post)
qed

lemma demo3_lookup: "lookup_invitation (session demo3_world) ''ABC123'' = Some demo3_invitation"
  by (simp add: lookup_invitation_def demo3_world_def demo3_db_def demo3_invitation_def
      demo_invitation_def demo_world_def)

lemma demo3_servers:
  "invitation_servers (session demo3_world) demo3_invitation
     = [demo_server 2 ''jellyfin'', demo_server 3 ''emby'', demo_server 4 ''romm'']"
  by (simp add: invitation_servers_def demo3_world_def demo3_db_def demo3_invitation_def
      demo_invitation_def demo_world_def demo_server_def)

lemma demo3_no_plex_user:
  "plex_user_of (session demo3_world) ''ABC123''
     [demo_server 2 ''jellyfin'', demo_server 3 ''emby'', demo_server 4 ''romm''] = None"
  by (simp add: plex_user_of_def demo_server_def)

lemma demo3_start:
  "users (session demo3_world) = []" "ledger (session demo3_world) = []"
  "vendor_calls demo3_world = []" "error_log demo3_world = []"
  "invitations (session demo3_world) = [demo3_invitation]"
  by (simp_all add: demo3_world_def demo3_db_def demo_world_def)

lemma demo3_call:
  "create_user_call (demo_server n t) (expected_username None) pw (email_for None)
     = (if t \<in> {''jellyfin'', ''emby''} then
          Some \<lparr>vc_server = demo_server n t, vc_username = ''wizarr'', vc_password = pw, vc_email = NoEmail\<rparr>
        else if t = ''audiobookshelf'' \<or> t = ''romm'' then
          Some \<lparr>vc_server = demo_server n t, vc_username = ''wizarr'', vc_password = pw,
                vc_email = Email (Some ''user@example.com'')\<rparr>
        else None)"
  by (simp add: create_user_call_def demo_server_def expected_username_def email_for_def)

lemma demo3_commit: "\<not> commit_raises demo3_env d"
  by (simp add: demo3_env_def demo_env_def)

lemma demo3_vendor:
  "client_create_user demo3_env h \<lparr>vc_server = demo_server n t, vc_username = un, vc_password = pw,
                                   vc_email = em\<rparr>
     = (if n = 3 then Inl TransportError else Inr (JStr ''vendor-id''))"
  by (simp add: demo3_env_def demo_env_def demo_server_def)

theorem provisioning_continues_after_failure_witness:
  "lookup_invitation (session demo3_world) ''ABC123'' = Some demo3_invitation
   \<and> form_accepted demo_form
   \<and> fst (password_prompt demo3_env ''ABC123'' POST demo_form demo3_world) = Inr (Redirect ''wizard.start'')
   \<and> map (\<lambda>c. ms_id (vc_server c))
        (vendor_calls (snd (password_prompt demo3_env ''ABC123'' POST demo_form demo3_world))) = [2, 3, 4]
   \<and> provision_fails demo3_env ''ABC123'' None (demo_server 3 ''emby'')
        \<lparr>vc_server = demo_server 3 ''emby'', vc_username = ''wizarr'', vc_password = ''password123'',
         vc_email = NoEmail\<rparr>
        (snd (provision_server demo3_env demo3_invitation ''ABC123'' None ''password123''
                (demo_server 2 ''jellyfin'') demo3_world))
   \<and> committed (snd (provision_server demo3_env demo3_invitation ''ABC123'' None ''password123''
        (demo_server 3 ''emby'')
        (snd (provision_server demo3_env demo3_invitation ''ABC123'' None ''password123''
                (demo_server 2 ''jellyfin'') demo3_world))))
       = committed (snd (provision_server demo3_env demo3_invitation ''ABC123'' None ''password123''
                (demo_server 2 ''jellyfin'') demo3_world))"
proof -
  let ?w1 = "snd (provision_server demo3_env demo3_invitation ''ABC123'' None ''password123''
                (demo_server 2 ''jellyfin'') demo3_world)"
  let ?call = "\<lparr>vc_server = demo_server 3 ''emby'', vc_username = ''wizarr'',
                vc_password = ''password123'', vc_email = NoEmail\<rparr>"
  have pw: "chosen_password demo3_env demo_form = ''password123''"
    by (simp add: chosen_password_def demo_form_def or_empty_def is_space_def)
  have c: "create_user_call (demo_server 3 ''emby'') (expected_username None) ''password123''
             (email_for None) = Some ?call"
    by (simp add: demo3_call)
  have f: "provision_fails demo3_env ''ABC123'' None (demo_server 3 ''emby'') ?call ?w1"
    by (simp add: provision_fails_def demo3_vendor)
  have ids: "map (\<lambda>c. ms_id (vc_server c))
        (vendor_calls (snd (password_prompt demo3_env ''ABC123'' POST demo_form demo3_world))) = [2, 3, 4]"
    by (simp add: password_prompt_post [OF demo3_lookup demo_form_accepted] provision_loop_calls
        demo3_servers demo3_no_plex_user demo3_call demo3_start List.map_filter_simps
        del: provision_loop.simps)
       (simp add: demo_server_def)
  from provisioning_continues_after_failure [of demo3_env demo3_invitation "''ABC123''" None
      "''password123''" "[]" ?w1 "[]" "demo_server 3 ''emby''" "[]" demo_form]
    provisioning_continues_after_failure [of demo3_env demo3_invitation "''ABC123''" None
      "''password123''" "[]" demo3_world "[]" "demo_server 3 ''emby''" "[]" demo_form]
    demo3_lookup demo_form_accepted c f ids
  show ?thesis by simp
qed

section \<open>The order of the checks of \<^verbatim>\<open>join\<close>\<close>

lemma put_each_log:
  "\<exists>rest. http_log (put_each e ps w) = http_log w @ rest \<and> (\<forall>r \<in> set rest. \<exists>q. r = PutReq q)"
proof (induction ps arbitrary: w)
  case Nil
  then show ?case by simp
next
  case (Cons p ps)
  let ?w1 = "w\<lparr>http_log := http_log w @ [PutReq p]\<rparr>"
  from Cons [of ?w1] obtain rest where
    q: "http_log (put_each e ps ?w1) = http_log ?w1 @ rest" "\<forall>r \<in> set rest. \<exists>q. r = PutReq q"
    by blast
  show ?case
  proof (cases "http e (http_log w) (PutReq p)")
    case (Returned r)
    then have "http_log (put_each e (p # ps) w) = http_log w @ (PutReq p # rest)"
      using q(1) by (simp add: send_def)
    moreover have "\<forall>r \<in> set (PutReq p # rest). \<exists>q. r = PutReq q"
      using q(2) by simp
    ultimately show ?thesis by blast
  next
    case (RaisedHTTPError r)
    then have "http_log (put_each e (p # ps) w) = http_log w @ [PutReq p]"
      by (simp add: send_def)
    moreover have "\<forall>r \<in> set [PutReq p]. \<exists>q. r = PutReq q" by simp
    ultimately show ?thesis by blast
  next
    case (RaisedOther x)
    then have "http_log (put_each e (p # ps) w) = http_log w @ [PutReq p]"
      by (simp add: send_def)
    moreover have "\<forall>r \<in> set [PutReq p]. \<exists>q. r = PutReq q" by simp
    ultimately show ?thesis by blast
  qed
qed

lemma put_each_rest: "put_each e ps w = w\<lparr>http_log := http_log (put_each e ps w)\<rparr>"
proof (induction ps arbitrary: w)
  case Nil
  then show ?case by simp
next
  case (Cons p ps)
  let ?w1 = "w\<lparr>http_log := http_log w @ [PutReq p]\<rparr>"
  from Cons [of ?w1] have "put_each e ps ?w1 = w\<lparr>http_log := http_log (put_each e ps ?w1)\<rparr>"
    by simp
  then show ?case
    by (cases "http e (http_log w) (PutReq p)") (auto simp: send_def)
qed

lemma set_library_access_rest:
  "set_library_access e uid ls w = w\<lparr>http_log := http_log (set_library_access e uid ls w)\<rparr>"
  unfolding set_library_access_def by (rule put_each_rest)

lemma set_library_access_fields:
  "session (set_library_access e uid ls w) = session w"
  "committed (set_library_access e uid ls w) = committed w"
  "error_log (set_library_access e uid ls w) = error_log w"
  by (subst set_library_access_rest, simp)+

lemma set_library_access_log:
  "\<exists>rest. http_log (set_library_access e uid ls w) = http_log w @ rest
         \<and> (\<forall>r \<in> set rest. \<exists>q. r = PutReq q)"
  unfolding set_library_access_def by (rule put_each_log)

lemma record_user_Inl:
  assumes "record_user e u invt w = (Inl x, w')"
  shows "http_log w' = http_log w \<and> error_log w' = error_log w
       \<and> (if commit_raises e (add_user u (session w)) then committed w' = committed w
          else committed w' = add_user u (session w))"
  using assms
  by (auto simp: record_user_def db_commit_def mark_server_used_def split: if_splits option.splits)

lemma record_user_log: "http_log (snd (record_user e u invt w)) = http_log w"
  by (auto simp: record_user_def db_commit_def mark_server_used_def split: if_splits option.splits)

lemma record_user_raises:
  "commit_raises e (add_user u (session w)) \<Longrightarrow> fst (record_user e u invt w) = Inl DatabaseError"
  by (simp add: record_user_def db_commit_def)

lemma komga_create_user_log:
  "http_log (snd (komga_create_user e un pw em w)) = http_log w @ [komga_create_request pw em]"
  by (simp add: komga_create_user_def send_def split: http_result.splits option.splits)

lemma komga_create_user_rest:
  "snd (komga_create_user e un pw em w) = w\<lparr>http_log := http_log w @ [komga_create_request pw em]\<rparr>"
  by (simp add: komga_create_user_def send_def split: http_result.splits option.splits)

lemma romm_create_user_rest:
  "\<exists>rest. snd (romm_create_user e un pw em w) = w\<lparr>http_log := http_log w @ romm_first_request un pw em # rest\<rparr>
         \<and> (rest = [] \<or> rest = [romm_fallback_request un pw em])"
  by (auto simp: romm_create_user_def romm_attempt_eq split: sum.splits)

lemma komga_after_create_log:
  "\<exists>rest. http_log (snd (komga_after_create e uid un em code w)) = http_log w @ rest
         \<and> (\<forall>r \<in> set rest. \<exists>q. r = PutReq q)"
proof (cases "invitation_by_code (session w) code")
  case None
  then show ?thesis by (simp add: komga_after_create_def)
next
  case (Some i)
  let ?w1 = "set_library_access e uid (komga_library_ids (session w) i) w"
  obtain rest where r: "http_log ?w1 = http_log w @ rest" "\<forall>r \<in> set rest. \<exists>q. r = PutReq q"
    using set_library_access_log by blast
  have "http_log (snd (komga_after_create e uid un em code w)) = http_log ?w1"
  proof (cases "membership_expiry e (inv_duration i)")
    case (Inl x)
    then show ?thesis using Some by (simp add: komga_after_create_def Let_def)
  next
    case (Inr expires)
    let ?u = "komga_new_user (session ?w1) i uid un em code expires"
    obtain res w2 where ru: "record_user e ?u (Some i) ?w1 = (res, w2)"
      by (cases "record_user e ?u (Some i) ?w1")
    then have "http_log w2 = http_log ?w1"
      using record_user_log [of e ?u "Some i" ?w1] by simp
    then show ?thesis
      using Some Inr ru
      by (cases res) (simp_all add: komga_after_create_def Let_def notify_new_user_def)
  qed
  then show ?thesis using r by simp
qed

lemma komga_try_log:
  "\<exists>rest. http_log (snd (komga_try e un pw em code w)) = http_log w @ komga_create_request pw em # rest
         \<and> (\<forall>r \<in> set rest. \<exists>q. r = PutReq q)"
proof -
  obtain res w1 where c: "komga_create_user e un pw em w = (res, w1)"
    by (cases "komga_create_user e un pw em w")
  then have l: "http_log w1 = http_log w @ [komga_create_request pw em]"
    using komga_create_user_log [of e un pw em w] by simp
  show ?thesis
  proof (cases res)
    case (Inl x)
    then show ?thesis using c l by (simp add: komga_try_def)
  next
    case (Inr uid)
    obtain rest where "http_log (snd (komga_after_create e uid un em code w1)) = http_log w1 @ rest"
      "\<forall>r \<in> set rest. \<exists>q. r = PutReq q"
      using komga_after_create_log by blast
    then show ?thesis using c l Inr by (simp add: komga_try_def)
  qed
qed

lemma romm_after_create_log: "http_log (snd (romm_after_create e uid un pw em code w)) = http_log w"
proof (cases "membership_expiry e (case invitation_by_code (session w) code of None \<Rightarrow> None
                                | Some i \<Rightarrow> inv_duration i)")
  case (Inl x)
  then show ?thesis by (simp add: romm_after_create_def Let_def)
next
  case (Inr expires)
  let ?u = "romm_new_user (session w) (invitation_by_code (session w) code) uid un pw em code expires"
  obtain res w2 where ru: "record_user e ?u (invitation_by_code (session w) code) w = (res, w2)"
    by (cases "record_user e ?u (invitation_by_code (session w) code) w")
  then have "http_log w2 = http_log w"
    using record_user_log [of e ?u "invitation_by_code (session w) code" w] by simp
  then show ?thesis
    using Inr ru by (cases res) (simp_all add: romm_after_create_def Let_def notify_new_user_def)
qed

lemma romm_try_log:
  "\<exists>rest. http_log (snd (romm_try e un pw em code w))
            = http_log w @ romm_first_request un pw (Some em) # rest
         \<and> (rest = [] \<or> rest = [romm_fallback_request un pw (Some em)])"
proof -
  obtain res w1 where c: "romm_create_user e un pw (Some em) w = (res, w1)"
    by (cases "romm_create_user e un pw (Some em) w")
  obtain rest where l: "http_log w1 = http_log w @ romm_first_request un pw (Some em) # rest"
    "rest = [] \<or> rest = [romm_fallback_request un pw (Some em)]"
    using romm_create_user_rest [of e un pw "Some em" w] c by auto
  show ?thesis
  proof (cases res)
    case (Inl x)
    then show ?thesis using c l by (simp add: romm_try_def)
  next
    case (Inr uid)
    then show ?thesis using c l by (simp add: romm_try_def romm_after_create_log)
  qed
qed

lemma join_failed_log: "http_log (snd (join_failed line w)) = http_log w"
  by (simp add: join_failed_def db_rollback_def)

lemma komga_join_pass:
  assumes "join_checks_pass e sid un pw cf em code w"
  shows "komga_join e sid un pw cf em code w
     = (case komga_try e un pw em code w of
          (Inr u, w') \<Rightarrow> ((True, []), w')
        | (Inl x, w') \<Rightarrow> join_failed ''Komga join error'' w')"
  using assms
  by (cases "is_invite_valid e (session w) code") (auto simp: komga_join_def join_checks_pass_def)

lemma romm_join_pass:
  assumes "join_checks_pass e sid un pw cf em code w"
  shows "romm_join e sid un pw cf em code w
     = (case romm_try e un pw em code w of
          (Inr u, w') \<Rightarrow> ((True, []), w')
        | (Inl x, w') \<Rightarrow> join_failed ''ROMM join error'' w')"
  using assms
  by (cases "is_invite_valid e (session w) code") (auto simp: romm_join_def join_checks_pass_def)

lemma komga_join_log:
  assumes "join_checks_pass e sid un pw cf em code w"
  shows "http_log (snd (komga_join e sid un pw cf em code w)) = http_log (snd (komga_try e un pw em code w))"
  by (simp add: komga_join_pass [OF assms] join_failed_log split: prod.splits sum.splits)

lemma romm_join_log:
  assumes "join_checks_pass e sid un pw cf em code w"
  shows "http_log (snd (romm_join e sid un pw cf em code w)) = http_log (snd (romm_try e un pw em code w))"
  by (simp add: romm_join_pass [OF assms] join_failed_log split: prod.splits sum.splits)

text \<open>
  Claim C3. Both clients check, in this order, the e-mail format, the length of the
  password, that password and confirmation agree, that the invitation is valid, and that no
  local user of the same server has the user name or the e-mail. The first check that fails
  decides the result, and the state is returned as it was: no request was sent and nothing
  was written. When all five pass, the next thing that happens is the request that creates
  the remote account.
\<close>

theorem join_validation_order:
  assumes "J = komga_join e sid \<or> J = romm_join e sid"
  shows "(\<not> email_re_fullmatch email \<longrightarrow>
            J username password confirm email code w = ((False, invalid_email_message), w))
       \<and> (email_re_fullmatch email \<and> \<not> (8 \<le> length password \<and> length password \<le> 20) \<longrightarrow>
            J username password confirm email code w = ((False, password_length_message), w))
       \<and> (email_re_fullmatch email \<and> 8 \<le> length password \<and> length password \<le> 20
            \<and> password \<noteq> confirm \<longrightarrow>
            J username password confirm email code w = ((False, password_mismatch_message), w))
       \<and> (email_re_fullmatch email \<and> 8 \<le> length password \<and> length password \<le> 20
            \<and> password = confirm \<and> \<not> fst (is_invite_valid e (session w) code) \<longrightarrow>
            J username password confirm email code w
              = ((False, snd (is_invite_valid e (session w) code)), w))
       \<and> (email_re_fullmatch email \<and> 8 \<le> length password \<and> length password \<le> 20
            \<and> password = confirm \<and> fst (is_invite_valid e (session w) code)
            \<and> existing_user (session w) sid username email \<noteq> None \<longrightarrow>
            J username password confirm email code w = ((False, user_exists_message), w))
       \<and> (join_checks_pass e sid username password confirm email code w \<longrightarrow>
            (\<exists>req rest. http_log (snd (J username password confirm email code w)) = http_log w @ req # rest
                \<and> (req = komga_create_request password email
                     \<or> req = romm_first_request username password (Some email))))"
proof -
  have komga: "join_checks_pass e sid username password confirm email code w \<Longrightarrow>
      \<exists>req rest. http_log (snd (komga_join e sid username password confirm email code w))
                    = http_log w @ req # rest
                \<and> (req = komga_create_request password email
                     \<or> req = romm_first_request username password (Some email))"
    using komga_try_log [of e username password email code w]
    by (auto simp: komga_join_log)
  have romm: "join_checks_pass e sid username password confirm email code w \<Longrightarrow>
      \<exists>req rest. http_log (snd (romm_join e sid username password confirm email code w))
                    = http_log w @ req # rest
                \<and> (req = komga_create_request password email
                     \<or> req = romm_first_request username password (Some email))"
    using romm_try_log [of e username password email code w]
    by (auto simp: romm_join_log)
  from assms show ?thesis
  proof
    assume "J = komga_join e sid"
    then show ?thesis
      using komga by (auto simp: komga_join_def split: prod.splits)
  next
    assume "J = romm_join e sid"
    then show ?thesis
      using romm by (auto simp: romm_join_def split: prod.splits)
  qed
qed

lemma demo_email_ok: "email_re_fullmatch ''alice@example.com''"
  by (simp add: email_re_fullmatch_def local_char_def domain_char_def is_alnum_def is_alpha_def)

lemma demo_checks_pass:
  "join_checks_pass demo_env (Some 2) ''alice'' ''password123'' ''password123'' ''alice@example.com''
     ''ABC123'' demo_world"
  using demo_email_ok
  by (simp add: join_checks_pass_def demo_env_def existing_user_def demo_world_def demo_db_def
      demo_plex_user_def)

theorem join_validation_order_witness:
  "email_re_fullmatch ''alice@example.com''
   \<and> komga_join demo_env (Some 2) ''alice'' ''password123'' ''password124'' ''alice@example.com''
        ''ABC123'' demo_world = ((False, password_mismatch_message), demo_world)
   \<and> komga_join demo_env (Some 2) ''alice'' ''short'' ''short'' ''alice@example.com''
        ''ABC123'' demo_world = ((False, password_length_message), demo_world)
   \<and> join_checks_pass demo_env (Some 2) ''alice'' ''password123'' ''password123'' ''alice@example.com''
        ''ABC123'' demo_world
   \<and> hd (http_log (snd (komga_join demo_env (Some 2) ''alice'' ''password123'' ''password123''
        ''alice@example.com'' ''ABC123'' demo_world)))
       = komga_create_request ''password123'' ''alice@example.com''"
proof -
  have j: "komga_join demo_env (Some 2) = komga_join demo_env (Some 2)
           \<or> komga_join demo_env (Some 2) = romm_join demo_env (Some 2)"
    by simp
  have l: "http_log demo_world = []" by (simp add: demo_world_def)
  have n: "komga_create_request ''password123'' ''alice@example.com''
             \<noteq> romm_first_request ''alice'' ''password123'' (Some ''alice@example.com'')"
    by (simp add: komga_create_request_def romm_first_request_def)
  have h: "hd (http_log (snd (komga_join demo_env (Some 2) ''alice'' ''password123'' ''password123''
        ''alice@example.com'' ''ABC123'' demo_world)))
       = komga_create_request ''password123'' ''alice@example.com''"
    using komga_try_log [of demo_env "''alice''" "''password123''" "''alice@example.com''"
        "''ABC123''" demo_world] l
    by (auto simp: komga_join_log [OF demo_checks_pass])
  from join_validation_order [OF j, of "''alice@example.com''" "''alice''" "''password123''"
      "''password124''" "''ABC123''" demo_world]
    join_validation_order [OF j, of "''alice@example.com''" "''alice''" "''short''"
      "''short''" "''ABC123''" demo_world]
    demo_email_ok demo_checks_pass h
  show ?thesis by simp
qed

section \<open>What \<^verbatim>\<open>join\<close> leaves behind when it fails after the remote account exists\<close>

lemma record_user_cases:
  assumes "record_user e u invt w = (res, w')"
  shows "(commit_raises e (add_user u (session w)) \<longrightarrow>
            res = Inl DatabaseError \<and> committed w' = committed w)
       \<and> (fails_after_commit e (Inr u) invt (session w) \<longrightarrow>
            res = Inl DatabaseError \<and> committed w' = add_user u (session w))
       \<and> (\<not> commit_raises e (add_user u (session w)) \<and> \<not> fails_after_commit e (Inr u) invt (session w) \<longrightarrow>
            res = Inr () \<and> committed w' = joined_db u invt (session w) \<and> session w' = committed w')
       \<and> error_log w' = error_log w"
  using assms
  by (auto simp: record_user_def db_commit_def mark_server_used_def marked_db_def joined_db_def
      fails_after_commit_def Let_def split: if_splits option.splits)

lemma komga_after_create_cases:
  assumes "komga_after_create e uid un em code w = (res, w')"
  shows "(fails_before_commit e (komga_row e uid un em code (session w)) (session w) \<longrightarrow>
            (\<exists>x. res = Inl x) \<and> committed w' = committed w)
       \<and> (fails_after_commit e (komga_row e uid un em code (session w))
             (invitation_by_code (session w) code) (session w) \<longrightarrow>
            (\<exists>x. res = Inl x)
          \<and> (\<exists>u. komga_row e uid un em code (session w) = Inr u
                 \<and> committed w' = add_user u (session w)))
       \<and> (\<not> fails_before_commit e (komga_row e uid un em code (session w)) (session w)
          \<and> \<not> fails_after_commit e (komga_row e uid un em code (session w))
                (invitation_by_code (session w) code) (session w) \<longrightarrow>
            res = Inr ()
          \<and> (\<exists>u. komga_row e uid un em code (session w) = Inr u
                 \<and> committed w' = joined_db u (invitation_by_code (session w) code) (session w))
          \<and> session w' = committed w')
       \<and> error_log w' = error_log w"
proof (cases "invitation_by_code (session w) code")
  case None
  then show ?thesis
    using assms
    by (auto simp: komga_after_create_def komga_row_def fails_before_commit_def fails_after_commit_def)
next
  case (Some i)
  let ?w1 = "set_library_access e uid (komga_library_ids (session w) i) w"
  note f = set_library_access_fields [of e uid "komga_library_ids (session w) i" w]
  show ?thesis
  proof (cases "membership_expiry e (inv_duration i)")
    case (Inl x)
    then show ?thesis
      using assms Some f
      by (auto simp: komga_after_create_def komga_row_def fails_before_commit_def
          fails_after_commit_def Let_def)
  next
    case (Inr expires)
    let ?u = "komga_new_user (session w) i uid un em code expires"
    have row: "komga_row e uid un em code (session w) = Inr ?u"
      using Some Inr by (simp add: komga_row_def)
    obtain r2 w2 where ru: "record_user e ?u (Some i) ?w1 = (r2, w2)"
      by (cases "record_user e ?u (Some i) ?w1")
    note rc = record_user_cases [OF ru, unfolded f]
    have out: "res = r2" "committed w' = committed w2" "error_log w' = error_log w2"
      "r2 = Inr () \<longrightarrow> session w' = session w2"
      using assms Some Inr f ru
      by (auto simp: komga_after_create_def Let_def notify_new_user_def split: sum.splits)
    show ?thesis
      unfolding row Some out(1-3) using rc out(4)
      by (auto simp: fails_before_commit_def)
  qed
qed

lemma romm_after_create_cases:
  assumes "romm_after_create e uid un pw em code w = (res, w')"
  shows "(fails_before_commit e (romm_row e uid un pw em code (session w)) (session w) \<longrightarrow>
            (\<exists>x. res = Inl x) \<and> committed w' = committed w)
       \<and> (fails_after_commit e (romm_row e uid un pw em code (session w))
             (invitation_by_code (session w) code) (session w) \<longrightarrow>
            (\<exists>x. res = Inl x)
          \<and> (\<exists>u. romm_row e uid un pw em code (session w) = Inr u
                 \<and> committed w' = add_user u (session w)))
       \<and> (\<not> fails_before_commit e (romm_row e uid un pw em code (session w)) (session w)
          \<and> \<not> fails_after_commit e (romm_row e uid un pw em code (session w))
                (invitation_by_code (session w) code) (session w) \<longrightarrow>
            res = Inr ()
          \<and> (\<exists>u. romm_row e uid un pw em code (session w) = Inr u
                 \<and> committed w' = joined_db u (invitation_by_code (session w) code) (session w))
          \<and> session w' = committed w')
       \<and> error_log w' = error_log w"
proof (cases "membership_expiry e (case invitation_by_code (session w) code of None \<Rightarrow> None
                                | Some i \<Rightarrow> inv_duration i)")
  case (Inl x)
  then show ?thesis
    using assms
    by (auto simp: romm_after_create_def romm_row_def fails_before_commit_def
        fails_after_commit_def Let_def)
next
  case (Inr expires)
  let ?iv = "invitation_by_code (session w) code"
  let ?u = "romm_new_user (session w) ?iv uid un pw em code expires"
  have row: "romm_row e uid un pw em code (session w) = Inr ?u"
    using Inr by (simp add: romm_row_def)
  obtain r2 w2 where ru: "record_user e ?u ?iv w = (r2, w2)"
    by (cases "record_user e ?u ?iv w")
  note rc = record_user_cases [OF ru]
  have out: "res = r2" "committed w' = committed w2" "error_log w' = error_log w2"
    "r2 = Inr () \<longrightarrow> session w' = session w2"
    using assms Inr ru
    by (auto simp: romm_after_create_def Let_def notify_new_user_def split: sum.splits)
  show ?thesis
    unfolding row out(1-3) using rc out(4)
    by (auto simp: fails_before_commit_def)
qed

lemma join_failed_fields:
  "fst (join_failed line w) = (False, unexpected_error_message)"
  "session (snd (join_failed line w)) = committed w"
  "committed (snd (join_failed line w)) = committed w"
  "error_log (snd (join_failed line w)) = error_log w @ [line]"
  by (simp_all add: join_failed_def db_rollback_def)

lemma komga_join_cases:
  assumes pass: "join_checks_pass e sid un pw cf em code w"
    and create: "komga_create_user e un pw em w = (Inr uid, w1)"
  shows "(fails_before_commit e (komga_row e uid un em code (session w)) (session w) \<longrightarrow>
            fst (komga_join e sid un pw cf em code w) = (False, unexpected_error_message)
          \<and> committed (snd (komga_join e sid un pw cf em code w)) = committed w
          \<and> session (snd (komga_join e sid un pw cf em code w)) = committed w
          \<and> error_log (snd (komga_join e sid un pw cf em code w)) = error_log w @ [''Komga join error''])
       \<and> (fails_after_commit e (komga_row e uid un em code (session w))
             (invitation_by_code (session w) code) (session w) \<longrightarrow>
            fst (komga_join e sid un pw cf em code w) = (False, unexpected_error_message)
          \<and> (\<exists>u. komga_row e uid un em code (session w) = Inr u
                 \<and> committed (snd (komga_join e sid un pw cf em code w)) = add_user u (session w))
          \<and> session (snd (komga_join e sid un pw cf em code w))
              = committed (snd (komga_join e sid un pw cf em code w))
          \<and> error_log (snd (komga_join e sid un pw cf em code w)) = error_log w @ [''Komga join error''])
       \<and> (\<not> fails_before_commit e (komga_row e uid un em code (session w)) (session w)
          \<and> \<not> fails_after_commit e (komga_row e uid un em code (session w))
                (invitation_by_code (session w) code) (session w) \<longrightarrow>
            fst (komga_join e sid un pw cf em code w) = (True, [])
          \<and> (\<exists>u. komga_row e uid un em code (session w) = Inr u
                 \<and> committed (snd (komga_join e sid un pw cf em code w))
                     = joined_db u (invitation_by_code (session w) code) (session w))
          \<and> session (snd (komga_join e sid un pw cf em code w))
              = committed (snd (komga_join e sid un pw cf em code w)))
       \<and> (\<exists>rest. http_log (snd (komga_join e sid un pw cf em code w)) = http_log w1 @ rest
                 \<and> (\<forall>r \<in> set rest. \<exists>q. r = PutReq q))"
proof -
  have w1: "w1 = w\<lparr>http_log := http_log w @ [komga_create_request pw em]\<rparr>"
    using komga_create_user_rest [of e un pw em w] create by simp
  then have same: "session w1 = session w" "committed w1 = committed w" "error_log w1 = error_log w"
    by simp_all
  obtain res w' where ac: "komga_after_create e uid un em code w1 = (res, w')"
    by (cases "komga_after_create e uid un em code w1")
  have join: "komga_join e sid un pw cf em code w
      = (case res of Inr u \<Rightarrow> ((True, []), w') | Inl x \<Rightarrow> join_failed ''Komga join error'' w')"
    using create ac by (simp add: komga_join_pass [OF pass] komga_try_def split: sum.splits)
  note cases = komga_after_create_cases [OF ac, unfolded same]
  obtain rest where log: "http_log w' = http_log w1 @ rest" "\<forall>r \<in> set rest. \<exists>q. r = PutReq q"
    using komga_after_create_log [of e uid un em code w1] ac by auto
  show ?thesis
  proof (cases res)
    case (Inl x)
    then show ?thesis
      using join cases log by (auto simp: join_failed_fields join_failed_log)
  next
    case (Inr v)
    then show ?thesis
      using join cases log by auto
  qed
qed

lemma romm_join_cases:
  assumes pass: "join_checks_pass e sid un pw cf em code w"
    and create: "romm_create_user e un pw (Some em) w = (Inr uid, w1)"
  shows "(fails_before_commit e (romm_row e uid un pw em code (session w)) (session w) \<longrightarrow>
            fst (romm_join e sid un pw cf em code w) = (False, unexpected_error_message)
          \<and> committed (snd (romm_join e sid un pw cf em code w)) = committed w
          \<and> session (snd (romm_join e sid un pw cf em code w)) = committed w
          \<and> error_log (snd (romm_join e sid un pw cf em code w)) = error_log w @ [''ROMM join error''])
       \<and> (fails_after_commit e (romm_row e uid un pw em code (session w))
             (invitation_by_code (session w) code) (session w) \<longrightarrow>
            fst (romm_join e sid un pw cf em code w) = (False, unexpected_error_message)
          \<and> (\<exists>u. romm_row e uid un pw em code (session w) = Inr u
                 \<and> committed (snd (romm_join e sid un pw cf em code w)) = add_user u (session w))
          \<and> session (snd (romm_join e sid un pw cf em code w))
              = committed (snd (romm_join e sid un pw cf em code w))
          \<and> error_log (snd (romm_join e sid un pw cf em code w)) = error_log w @ [''ROMM join error''])
       \<and> (\<not> fails_before_commit e (romm_row e uid un pw em code (session w)) (session w)
          \<and> \<not> fails_after_commit e (romm_row e uid un pw em code (session w))
                (invitation_by_code (session w) code) (session w) \<longrightarrow>
            fst (romm_join e sid un pw cf em code w) = (True, [])
          \<and> (\<exists>u. romm_row e uid un pw em code (session w) = Inr u
                 \<and> committed (snd (romm_join e sid un pw cf em code w))
                     = joined_db u (invitation_by_code (session w) code) (session w))
          \<and> session (snd (romm_join e sid un pw cf em code w))
              = committed (snd (romm_join e sid un pw cf em code w)))
       \<and> http_log (snd (romm_join e sid un pw cf em code w)) = http_log w1"
proof -
  obtain rest where w1: "w1 = w\<lparr>http_log := http_log w @ romm_first_request un pw (Some em) # rest\<rparr>"
    using romm_create_user_rest [of e un pw "Some em" w] create by auto
  then have same: "session w1 = session w" "committed w1 = committed w" "error_log w1 = error_log w"
    by simp_all
  obtain res w' where ac: "romm_after_create e uid un pw em code w1 = (res, w')"
    by (cases "romm_after_create e uid un pw em code w1")
  have join: "romm_join e sid un pw cf em code w
      = (case res of Inr u \<Rightarrow> ((True, []), w') | Inl x \<Rightarrow> join_failed ''ROMM join error'' w')"
    using create ac by (simp add: romm_join_pass [OF pass] romm_try_def split: sum.splits)
  note cases = romm_after_create_cases [OF ac, unfolded same]
  have log: "http_log w' = http_log w1"
    using romm_after_create_log [of e uid un pw em code w1] ac by simp
  show ?thesis
  proof (cases res)
    case (Inl x)
    then show ?thesis
      using join cases log by (auto simp: join_failed_fields join_failed_log)
  next
    case (Inr v)
    then show ?thesis
      using join cases log by auto
  qed
qed

subsection \<open>The first deployment, with a database that fails\<close>

lemma demo_row:
  "commit_raises e = commit_raises demo_env \<or> commit_raises e = (\<lambda>d. True)
     \<or> commit_raises e = (\<lambda>d. ledger d \<noteq> []) \<Longrightarrow>
   py_int e = py_int demo_env \<Longrightarrow>
   komga_row e (JNum 7) ''alice'' ''alice@example.com'' ''ABC123'' (session demo_world)
     = Inr \<lparr>u_id = 2, u_token = JNum 7, u_username = ''alice'', u_email = Some ''alice@example.com'',
            u_code = ''ABC123'', u_expires = None, u_password = None, u_server_id = Some 1\<rparr>"
  by (simp add: komga_row_def invitation_by_code_def membership_expiry_def komga_new_user_def
      invitation_server_def next_user_id_def demo_world_def demo_db_def demo_invitation_def
      demo_plex_user_def demo_server_def)

lemma demo_invitation_found:
  "invitation_by_code (session demo_world) ''ABC123'' = Some demo_invitation"
  by (simp add: invitation_by_code_def demo_world_def demo_db_def demo_invitation_def)

lemma demo_checks_pass_any:
  "is_invite_valid e = is_invite_valid demo_env \<Longrightarrow>
   join_checks_pass e (Some 2) ''alice'' ''password123'' ''password123'' ''alice@example.com''
     ''ABC123'' demo_world"
  using demo_email_ok
  by (simp add: join_checks_pass_def demo_env_def existing_user_def demo_world_def demo_db_def
      demo_plex_user_def)

lemma demo_komga_created:
  "http e = demo_http \<Longrightarrow>
   komga_create_user e ''alice'' ''password123'' ''alice@example.com'' demo_world
     = (Inr (JNum 7),
        demo_world\<lparr>http_log := [komga_create_request ''password123'' ''alice@example.com'']\<rparr>)"
  by (simp add: komga_create_user_def send_def demo_http_def komga_create_request_def demo_world_def)

lemma demo_mark_fails:
  "fails_after_commit demo_env_mark_fails
     (komga_row demo_env_mark_fails (JNum 7) ''alice'' ''alice@example.com'' ''ABC123''
        (session demo_world))
     (invitation_by_code (session demo_world) ''ABC123'') (session demo_world)"
proof -
  have "komga_row demo_env_mark_fails (JNum 7) ''alice'' ''alice@example.com'' ''ABC123''
          (session demo_world)
        = Inr \<lparr>u_id = 2, u_token = JNum 7, u_username = ''alice'', u_email = Some ''alice@example.com'',
            u_code = ''ABC123'', u_expires = None, u_password = None, u_server_id = Some 1\<rparr>"
    by (rule demo_row) (simp_all add: demo_env_mark_fails_def)
  moreover have "ledger (session demo_world) = []"
    by (simp add: demo_world_def demo_db_def)
  ultimately show ?thesis
    by (simp add: demo_invitation_found fails_after_commit_def marked_db_def Let_def add_user_def
        set_used_by_def demo_env_mark_fails_def)
qed

text \<open>
  Claim C4, as the code has it. Take a \<^verbatim>\<open>join\<close> whose checks passed and whose \<^verbatim>\<open>create_user\<close>
  returned an id. Three cases cover what follows. When a later step raises before the
  commit of the new row is done (the invitation is not found, the expiry cannot be computed,
  or that commit raises), \<^verbatim>\<open>join\<close> returns \<open>(False, "An unexpected error occurred.")\<close>, the
  error is logged, the session is rolled back and the database is as it was: no local row
  persists. When the row was committed and marking the invitation raises, \<^verbatim>\<open>join\<close> returns
  the same pair with the session rolled back and the error logged, and the database holds
  the new row, with the invitation not linked to it and no ledger entry written. In every
  other case \<^verbatim>\<open>join\<close> returns \<open>(True, "")\<close> and the database holds the row, the link and the
  ledger entry. In all three the remote account stays and is not created again: after
  \<^verbatim>\<open>create_user\<close> returned, Komga sends nothing but the library grants and RomM sends nothing.
\<close>

theorem join_rolls_back:
  assumes "join_checks_pass e sid username password confirm email code w"
  shows "(\<forall>uid w1. komga_create_user e username password email w = (Inr uid, w1) \<longrightarrow>
           (fails_before_commit e (komga_row e uid username email code (session w)) (session w) \<longrightarrow>
              fst (komga_join e sid username password confirm email code w) = (False, unexpected_error_message)
            \<and> committed (snd (komga_join e sid username password confirm email code w)) = committed w
            \<and> session (snd (komga_join e sid username password confirm email code w)) = committed w
            \<and> error_log (snd (komga_join e sid username password confirm email code w))
                = error_log w @ [''Komga join error''])
         \<and> (fails_after_commit e (komga_row e uid username email code (session w))
               (invitation_by_code (session w) code) (session w) \<longrightarrow>
              fst (komga_join e sid username password confirm email code w) = (False, unexpected_error_message)
            \<and> (\<exists>u. komga_row e uid username email code (session w) = Inr u
                   \<and> committed (snd (komga_join e sid username password confirm email code w))
                       = add_user u (session w))
            \<and> session (snd (komga_join e sid username password confirm email code w))
                = committed (snd (komga_join e sid username password confirm email code w))
            \<and> error_log (snd (komga_join e sid username password confirm email code w))
                = error_log w @ [''Komga join error''])
         \<and> (\<not> fails_before_commit e (komga_row e uid username email code (session w)) (session w)
            \<and> \<not> fails_after_commit e (komga_row e uid username email code (session w))
                  (invitation_by_code (session w) code) (session w) \<longrightarrow>
              fst (komga_join e sid username password confirm email code w) = (True, [])
            \<and> (\<exists>u. komga_row e uid username email code (session w) = Inr u
                   \<and> committed (snd (komga_join e sid username password confirm email code w))
                       = joined_db u (invitation_by_code (session w) code) (session w))
            \<and> session (snd (komga_join e sid username password confirm email code w))
                = committed (snd (komga_join e sid username password confirm email code w)))
         \<and> (\<exists>rest. http_log (snd (komga_join e sid username password confirm email code w)) = http_log w1 @ rest
                   \<and> (\<forall>r \<in> set rest. \<exists>q. r = PutReq q)))
       \<and> (\<forall>uid w1. romm_create_user e username password (Some email) w = (Inr uid, w1) \<longrightarrow>
           (fails_before_commit e (romm_row e uid username password email code (session w)) (session w) \<longrightarrow>
              fst (romm_join e sid username password confirm email code w) = (False, unexpected_error_message)
            \<and> committed (snd (romm_join e sid username password confirm email code w)) = committed w
            \<and> session (snd (romm_join e sid username password confirm email code w)) = committed w
            \<and> error_log (snd (romm_join e sid username password confirm email code w))
                = error_log w @ [''ROMM join error''])
         \<and> (fails_after_commit e (romm_row e uid username password email code (session w))
               (invitation_by_code (session w) code) (session w) \<longrightarrow>
              fst (romm_join e sid username password confirm email code w) = (False, unexpected_error_message)
            \<and> (\<exists>u. romm_row e uid username password email code (session w) = Inr u
                   \<and> committed (snd (romm_join e sid username password confirm email code w))
                       = add_user u (session w))
            \<and> session (snd (romm_join e sid username password confirm email code w))
                = committed (snd (romm_join e sid username password confirm email code w))
            \<and> error_log (snd (romm_join e sid username password confirm email code w))
                = error_log w @ [''ROMM join error''])
         \<and> (\<not> fails_before_commit e (romm_row e uid username password email code (session w)) (session w)
            \<and> \<not> fails_after_commit e (romm_row e uid username password email code (session w))
                  (invitation_by_code (session w) code) (session w) \<longrightarrow>
              fst (romm_join e sid username password confirm email code w) = (True, [])
            \<and> (\<exists>u. romm_row e uid username password email code (session w) = Inr u
                   \<and> committed (snd (romm_join e sid username password confirm email code w))
                       = joined_db u (invitation_by_code (session w) code) (session w))
            \<and> session (snd (romm_join e sid username password confirm email code w))
                = committed (snd (romm_join e sid username password confirm email code w)))
         \<and> http_log (snd (romm_join e sid username password confirm email code w)) = http_log w1)"
  using komga_join_cases [OF assms] romm_join_cases [OF assms] by blast

theorem join_rolls_back_witness:
  "join_checks_pass demo_env_commit_fails (Some 2) ''alice'' ''password123'' ''password123''
     ''alice@example.com'' ''ABC123'' demo_world
   \<and> fst (komga_create_user demo_env_commit_fails ''alice'' ''password123'' ''alice@example.com'' demo_world)
       = Inr (JNum 7)
   \<and> fails_before_commit demo_env_commit_fails
        (komga_row demo_env_commit_fails (JNum 7) ''alice'' ''alice@example.com'' ''ABC123''
           (session demo_world)) (session demo_world)
   \<and> fst (komga_join demo_env_commit_fails (Some 2) ''alice'' ''password123'' ''password123''
        ''alice@example.com'' ''ABC123'' demo_world) = (False, unexpected_error_message)
   \<and> committed (snd (komga_join demo_env_commit_fails (Some 2) ''alice'' ''password123'' ''password123''
        ''alice@example.com'' ''ABC123'' demo_world)) = demo_db
   \<and> session (snd (komga_join demo_env_commit_fails (Some 2) ''alice'' ''password123'' ''password123''
        ''alice@example.com'' ''ABC123'' demo_world)) = demo_db
   \<and> join_checks_pass demo_env_mark_fails (Some 2) ''alice'' ''password123'' ''password123''
     ''alice@example.com'' ''ABC123'' demo_world
   \<and> fst (komga_create_user demo_env_mark_fails ''alice'' ''password123'' ''alice@example.com'' demo_world)
       = Inr (JNum 7)
   \<and> fails_after_commit demo_env_mark_fails
        (komga_row demo_env_mark_fails (JNum 7) ''alice'' ''alice@example.com'' ''ABC123''
           (session demo_world))
        (invitation_by_code (session demo_world) ''ABC123'') (session demo_world)
   \<and> fst (komga_join demo_env_mark_fails (Some 2) ''alice'' ''password123'' ''password123''
        ''alice@example.com'' ''ABC123'' demo_world) = (False, unexpected_error_message)
   \<and> map u_username (users (committed (snd (komga_join demo_env_mark_fails (Some 2) ''alice''
        ''password123'' ''password123'' ''alice@example.com'' ''ABC123'' demo_world))))
       = [''plexbob'', ''alice'']"
proof -
  have pass: "join_checks_pass demo_env_commit_fails (Some 2) ''alice'' ''password123'' ''password123''
     ''alice@example.com'' ''ABC123'' demo_world"
    by (rule demo_checks_pass_any) (simp add: demo_env_commit_fails_def)
  have create: "komga_create_user demo_env_commit_fails ''alice'' ''password123''
      ''alice@example.com'' demo_world
      = (Inr (JNum 7), demo_world\<lparr>http_log := [komga_create_request ''password123'' ''alice@example.com'']\<rparr>)"
    by (rule demo_komga_created) (simp add: demo_env_commit_fails_def demo_env_def)
  have fails: "fails_before_commit demo_env_commit_fails
        (komga_row demo_env_commit_fails (JNum 7) ''alice'' ''alice@example.com'' ''ABC123''
           (session demo_world)) (session demo_world)"
    by (simp add: fails_before_commit_def demo_env_commit_fails_def split: sum.splits)
  have db: "committed demo_world = demo_db" by (simp add: demo_world_def)
  have pass2: "join_checks_pass demo_env_mark_fails (Some 2) ''alice'' ''password123'' ''password123''
     ''alice@example.com'' ''ABC123'' demo_world"
    by (rule demo_checks_pass_any) (simp add: demo_env_mark_fails_def)
  have create2: "komga_create_user demo_env_mark_fails ''alice'' ''password123''
      ''alice@example.com'' demo_world
      = (Inr (JNum 7), demo_world\<lparr>http_log := [komga_create_request ''password123'' ''alice@example.com'']\<rparr>)"
    by (rule demo_komga_created) (simp add: demo_env_mark_fails_def demo_env_def)
  have row2: "komga_row demo_env_mark_fails (JNum 7) ''alice'' ''alice@example.com'' ''ABC123''
          (session demo_world)
        = Inr \<lparr>u_id = 2, u_token = JNum 7, u_username = ''alice'', u_email = Some ''alice@example.com'',
            u_code = ''ABC123'', u_expires = None, u_password = None, u_server_id = Some 1\<rparr>"
    by (rule demo_row) (simp_all add: demo_env_mark_fails_def)
  have us: "map u_username (users (session demo_world)) = [''plexbob'']"
    by (simp add: demo_world_def demo_db_def demo_plex_user_def)
  have first: "fst (komga_join demo_env_commit_fails (Some 2) ''alice'' ''password123'' ''password123''
        ''alice@example.com'' ''ABC123'' demo_world) = (False, unexpected_error_message)
   \<and> committed (snd (komga_join demo_env_commit_fails (Some 2) ''alice'' ''password123'' ''password123''
        ''alice@example.com'' ''ABC123'' demo_world)) = demo_db
   \<and> session (snd (komga_join demo_env_commit_fails (Some 2) ''alice'' ''password123'' ''password123''
        ''alice@example.com'' ''ABC123'' demo_world)) = demo_db"
    using join_rolls_back [OF pass] create fails db by simp
  have second: "fst (komga_join demo_env_mark_fails (Some 2) ''alice'' ''password123'' ''password123''
        ''alice@example.com'' ''ABC123'' demo_world) = (False, unexpected_error_message)
   \<and> map u_username (users (committed (snd (komga_join demo_env_mark_fails (Some 2) ''alice''
        ''password123'' ''password123'' ''alice@example.com'' ''ABC123'' demo_world))))
       = [''plexbob'', ''alice'']"
    using join_rolls_back [OF pass2] create2 demo_mark_fails row2 us by (auto simp: add_user_def)
  show ?thesis
    using pass create fails first pass2 create2 demo_mark_fails second by simp
qed

text \<open>
  Claim C4 as stated fails. The database accepts the commit of the new row and refuses the
  commit that marks the invitation: \<^verbatim>\<open>create_user\<close> succeeded, a later step raised, \<^verbatim>\<open>join\<close>
  returns \<open>(False, "An unexpected error occurred.")\<close>, and the row of \<open>alice\<close> persists, with
  the invitation not linked to it and no ledger entry.
\<close>

theorem join_row_persists_counterexample:
  "fst (komga_create_user demo_env_mark_fails ''alice'' ''password123'' ''alice@example.com'' demo_world)
     = Inr (JNum 7)
   \<and> fst (komga_join demo_env_mark_fails (Some 2) ''alice'' ''password123'' ''password123''
        ''alice@example.com'' ''ABC123'' demo_world) = (False, unexpected_error_message)
   \<and> users (committed demo_world) = [demo_plex_user]
   \<and> users (committed (snd (komga_join demo_env_mark_fails (Some 2) ''alice'' ''password123''
        ''password123'' ''alice@example.com'' ''ABC123'' demo_world)))
       = [demo_plex_user,
          \<lparr>u_id = 2, u_token = JNum 7, u_username = ''alice'', u_email = Some ''alice@example.com'',
            u_code = ''ABC123'', u_expires = None, u_password = None, u_server_id = Some 1\<rparr>]
   \<and> map inv_used_by_id (invitations (committed (snd (komga_join demo_env_mark_fails (Some 2) ''alice''
        ''password123'' ''password123'' ''alice@example.com'' ''ABC123'' demo_world)))) = [None]
   \<and> ledger (committed (snd (komga_join demo_env_mark_fails (Some 2) ''alice'' ''password123''
        ''password123'' ''alice@example.com'' ''ABC123'' demo_world))) = []"
proof -
  have pass2: "join_checks_pass demo_env_mark_fails (Some 2) ''alice'' ''password123'' ''password123''
     ''alice@example.com'' ''ABC123'' demo_world"
    by (rule demo_checks_pass_any) (simp add: demo_env_mark_fails_def)
  have create2: "komga_create_user demo_env_mark_fails ''alice'' ''password123''
      ''alice@example.com'' demo_world
      = (Inr (JNum 7), demo_world\<lparr>http_log := [komga_create_request ''password123'' ''alice@example.com'']\<rparr>)"
    by (rule demo_komga_created) (simp add: demo_env_mark_fails_def demo_env_def)
  have row2: "komga_row demo_env_mark_fails (JNum 7) ''alice'' ''alice@example.com'' ''ABC123''
          (session demo_world)
        = Inr \<lparr>u_id = 2, u_token = JNum 7, u_username = ''alice'', u_email = Some ''alice@example.com'',
            u_code = ''ABC123'', u_expires = None, u_password = None, u_server_id = Some 1\<rparr>"
    by (rule demo_row) (simp_all add: demo_env_mark_fails_def)
  have db: "users (session demo_world) = [demo_plex_user]" "users (committed demo_world) = [demo_plex_user]"
    "map inv_used_by_id (invitations (session demo_world)) = [None]"
    "ledger (session demo_world) = []"
    by (simp_all add: demo_world_def demo_db_def demo_invitation_def)
  from komga_join_cases [OF pass2 create2] demo_mark_fails row2 db create2
  show ?thesis by (auto simp: add_user_def)
qed


section \<open>Reconciliation of \<^verbatim>\<open>list_users\<close>\<close>

subsection \<open>The dict of upstream users\<close>





subsection \<open>Deleting what is absent upstream\<close>



subsection \<open>Komga: the insert loop\<close>






subsection \<open>Komga: one call and two calls\<close>








subsection \<open>RomM: the upsert loop\<close>














lemma romm_upsert_frame: "romm_upsert sid kv d = d\<lparr>users := users (romm_upsert sid kv d)\<rparr>"
  by (simp add: romm_upsert_def add_user_def split: option.splits)









subsection \<open>RomM: one call and two calls\<close>




subsection \<open>RomM: the rows after the upsert loop\<close>







subsection \<open>The rows after one call\<close>









subsection \<open>The deployment to synchronise, evaluated\<close>




subsection \<open>Full diff and idempotence\<close>




end
